theory Spec2Isabelle
  imports Main
begin

section \<open>JavaScript values\<close>

text \<open>
  The client passes free-form payloads (\<^verbatim>\<open>any\<close>) around: request bodies, decoded
  responses, the \<^verbatim>\<open>data\<close>, \<^verbatim>\<open>style\<close>, \<^verbatim>\<open>position\<close> and \<^verbatim>\<open>geometry\<close> bags of an item.
  They are modelled as JSON values extended with \<^verbatim>\<open>undefined\<close> (an absent optional field).
  Numbers are integers here: no operation of the client computes with fractions.
  An object is an association list; a property read takes the first binding of the name.
\<close>

datatype json =
    JUndefined
  | JNull
  | JBool bool
  | JNum int
  | JStr string
  | JArr "json list"
  | JObj "(string \<times> json) list"

type_synonym obj = "(string \<times> json) list"

text \<open>What \<^verbatim>\<open>if (v)\<close>, \<^verbatim>\<open>v ? a : b\<close> and \<^verbatim>\<open>v || d\<close> test.\<close>

fun truthy :: "json \<Rightarrow> bool" where
  "truthy JUndefined = False"
| "truthy JNull = False"
| "truthy (JBool b) = b"
| "truthy (JNum n) = (n \<noteq> 0)"
| "truthy (JStr s) = (s \<noteq> [])"
| "truthy (JArr xs) = True"
| "truthy (JObj kvs) = True"

text \<open>\<^verbatim>\<open>a || b\<close> on values.\<close>

definition or_else :: "json \<Rightarrow> json \<Rightarrow> json" where
  "or_else a b = (if truthy a then a else b)"

text \<open>\<^verbatim>\<open>o.p\<close> where \<^verbatim>\<open>o\<close> is an object literal or a parameter typed as an object.\<close>

definition lookup :: "obj \<Rightarrow> string \<Rightarrow> json" where
  "lookup kvs p = (case map_of kvs p of None \<Rightarrow> JUndefined | Some v \<Rightarrow> v)"

text \<open>
  \<^verbatim>\<open>v.p\<close> for a value \<^verbatim>\<open>v\<close> that is neither \<^verbatim>\<open>null\<close> nor \<^verbatim>\<open>undefined\<close>, for the property
  names the client reads (\<^verbatim>\<open>content\<close>, \<^verbatim>\<open>shape\<close>, \<^verbatim>\<open>title\<close>, \<^verbatim>\<open>description\<close>, \<^verbatim>\<open>url\<close>,
  \<^verbatim>\<open>fillColor\<close>, \<^verbatim>\<open>width\<close>, \<^verbatim>\<open>height\<close>, \<^verbatim>\<open>type\<close>, \<^verbatim>\<open>data\<close>): none of them is defined on the
  prototypes of strings, numbers, booleans or arrays, so only objects answer.
\<close>

fun field :: "json \<Rightarrow> string \<Rightarrow> json" where
  "field (JObj kvs) p = lookup kvs p"
| "field v p = JUndefined"

datatype error =
    Error string      \<comment> \<open>\<^verbatim>\<open>new Error(message)\<close>\<close>
  | TypeError string  \<comment> \<open>a property, named here, read from \<^verbatim>\<open>null\<close> or \<^verbatim>\<open>undefined\<close>\<close>
  | FetchError string \<comment> \<open>a rejection of \<^verbatim>\<open>fetch\<close> or of \<^verbatim>\<open>response.json()\<close>\<close>

definition nullish :: "json \<Rightarrow> bool" where
  "nullish v \<longleftrightarrow> v = JUndefined \<or> v = JNull"

text \<open>\<^verbatim>\<open>v.p\<close> for any value: reading from \<^verbatim>\<open>null\<close> or \<^verbatim>\<open>undefined\<close> throws.\<close>

definition get_prop :: "json \<Rightarrow> string \<Rightarrow> error + json" where
  "get_prop v p = (if nullish v then Inl (TypeError p) else Inr (field v p))"

text \<open>\<^verbatim>\<open>v?.p\<close>.\<close>

definition opt_prop :: "json \<Rightarrow> string \<Rightarrow> json" where
  "opt_prop v p = (if nullish v then JUndefined else field v p)"

text \<open>\<^verbatim>\<open>...(c ? { k: v } : {})\<close> inside an object literal.\<close>

definition spread_if :: "json \<Rightarrow> obj \<Rightarrow> obj" where
  "spread_if c kvs = (if truthy c then kvs else [])"

text \<open>Template literals print a number in decimal.\<close>

fun digit_char :: "nat \<Rightarrow> char" where
  "digit_char n = char_of (48 + n)"

fun show_nat :: "nat \<Rightarrow> string" where
  "show_nat n = (if n < 10 then [digit_char n] else show_nat (n div 10) @ [digit_char (n mod 10)])"

declare show_nat.simps [simp del]

definition show_int :: "int \<Rightarrow> string" where
  "show_int i = (if i < 0 then CHR ''-'' # show_nat (nat (- i)) else show_nat (nat i))"

text \<open>\<^verbatim>\<open>s.includes(t)\<close>.\<close>

fun startsWith :: "string \<Rightarrow> string \<Rightarrow> bool" where
  "startsWith s [] = True"
| "startsWith [] (c # t) = False"
| "startsWith (d # s) (c # t) = (d = c \<and> startsWith s t)"

fun includes_str :: "string \<Rightarrow> string \<Rightarrow> bool" where
  "includes_str [] t = (t = [])"
| "includes_str (d # s) t = (startsWith (d # s) t \<or> includes_str s t)"


section \<open>The HTTP boundary\<close>

text \<open>
  \<^verbatim>\<open>fetch(url, { method, headers, body })\<close>. The query string is kept as the record of
  parameters given to \<^verbatim>\<open>URLSearchParams\<close> (\<open>None\<close> when no \<^verbatim>\<open>?\<close> is appended), and the body as
  the value given to \<^verbatim>\<open>JSON.stringify\<close>; their serialisation is the platform's.
\<close>

record request =
  url :: string
  query :: "(string \<times> string) list option"
  "method" :: string
  headers :: "(string \<times> string) list"
  body :: "json option"

text \<open>
  What the client reads of a response: \<^verbatim>\<open>status\<close>, \<^verbatim>\<open>statusText\<close>,
  \<^verbatim>\<open>headers.get('content-type')\<close>, \<^verbatim>\<open>text()\<close> and \<^verbatim>\<open>json()\<close> (which rejects on a body that
  is not JSON).
\<close>

record response =
  status :: nat
  statusText :: string
  contentType :: "string option"
  bodyText :: string
  bodyJson :: "error + json"

text \<open>\<^verbatim>\<open>response.ok\<close> of the fetch API: the status is in the range 200-299.\<close>

definition ok :: "response \<Rightarrow> bool" where
  "ok r \<longleftrightarrow> 200 \<le> status r \<and> status r < 300"

text \<open>
  The remote service: it answers a request, given the requests this process has issued
  before, with a response or with a rejection of \<^verbatim>\<open>fetch\<close>. A test double for the Remote
  Resource Client is such a function, the call count is the length of the request log.
\<close>

type_synonym remote = "request list \<Rightarrow> request \<Rightarrow> error + response"

text \<open>
  An asynchronous client method: from the log of requests issued so far to its outcome
  (\<open>Inl\<close> a thrown error, \<open>Inr\<close> the resolved value) and the extended log.
\<close>

type_synonym 'a io = "request list \<Rightarrow> (error + 'a) \<times> request list"

definition resolve :: "'a \<Rightarrow> 'a io" where
  "resolve v cs = (Inr v, cs)"

definition throw :: "error \<Rightarrow> 'a io" where
  "throw e cs = (Inl e, cs)"

text \<open>\<^verbatim>\<open>const x = await m; k(x)\<close>: an error of \<^verbatim>\<open>m\<close> leaves the function.\<close>

definition await :: "'a io \<Rightarrow> ('a \<Rightarrow> 'b io) \<Rightarrow> 'b io" where
  "await m k cs = (case m cs of (Inl e, cs') \<Rightarrow> (Inl e, cs') | (Inr v, cs') \<Rightarrow> k v cs')"

text \<open>A synchronous expression that may throw.\<close>

definition sync :: "error + 'a \<Rightarrow> 'a io" where
  "sync r cs = (r, cs)"


section \<open>MiroClient.fetchApi\<close>

record options =
  opt_method :: "string option"
  opt_body :: json
  opt_params :: "(string \<times> string) list option"

definition no_options :: options where
  "no_options = \<lparr>opt_method = None, opt_body = JUndefined, opt_params = None\<rparr>"

text \<open>\<^verbatim>\<open>options.method || 'GET'\<close>.\<close>

definition method_or_GET :: "string option \<Rightarrow> string" where
  "method_or_GET m = (case m of None \<Rightarrow> ''GET'' | Some s \<Rightarrow> if s = [] then ''GET'' else s)"

definition build_request :: "string \<Rightarrow> string \<Rightarrow> options \<Rightarrow> request" where
  "build_request token path opts =
     \<lparr>url = ''https://api.miro.com/v2'' @ path,
      query = opt_params opts,
      method = method_or_GET (opt_method opts),
      headers = [(''Authorization'', ''Bearer '' @ token), (''Content-Type'', ''application/json'')],
      body = (if truthy (opt_body opts) then Some (opt_body opts) else None)\<rparr>"

definition api_error :: "response \<Rightarrow> error" where
  "api_error r =
     Error (''Miro API error: '' @ show_nat (status r) @ '' '' @ statusText r @ '' - '' @ bodyText r)"

definition interpret_response :: "options \<Rightarrow> response \<Rightarrow> error + json" where
  "interpret_response opts r =
     (if \<not> ok r then Inl (api_error r)
      else if status r = 204 \<or> opt_method opts = Some ''DELETE'' then Inr (JObj [])
      else (case contentType r of
              None \<Rightarrow> Inr (JObj [])
            | Some ct \<Rightarrow>
                if ct \<noteq> [] \<and> includes_str ct ''application/json'' then bodyJson r
                else Inr (JObj [])))"

definition fetchApi :: "remote \<Rightarrow> string \<Rightarrow> string \<Rightarrow> options \<Rightarrow> json io" where
  "fetchApi srv token path opts cs =
     (let req = build_request token path opts in
      case srv cs req of
        Inl e \<Rightarrow> (Inl e, cs @ [req])
      | Inr r \<Rightarrow> (interpret_response opts r, cs @ [req]))"

text \<open>The option objects of the call sites: \<^verbatim>\<open>{ method, body }\<close>, \<^verbatim>\<open>{ method }\<close>, \<^verbatim>\<open>{ params }\<close>.\<close>

definition method_body :: "string \<Rightarrow> json \<Rightarrow> options" where
  "method_body m b = \<lparr>opt_method = Some m, opt_body = b, opt_params = None\<rparr>"

definition method_only :: "string \<Rightarrow> options" where
  "method_only m = \<lparr>opt_method = Some m, opt_body = JUndefined, opt_params = None\<rparr>"

definition params_only :: "(string \<times> string) list \<Rightarrow> options" where
  "params_only ps = \<lparr>opt_method = None, opt_body = JUndefined, opt_params = Some ps\<rparr>"

text \<open>\<^verbatim>\<open>if (v) params.k = v\<close> for an optional string \<^verbatim>\<open>v\<close>.\<close>

definition param_if :: "string \<Rightarrow> string option \<Rightarrow> (string \<times> string) list" where
  "param_if k v = (case v of None \<Rightarrow> [] | Some s \<Rightarrow> if s = [] then [] else [(k, s)])"

text \<open>\<^verbatim>\<open>const response = await this.fetchApi(...); return response.data\<close>.\<close>

definition return_data :: "json io \<Rightarrow> json io" where
  "return_data m = await m (\<lambda>response. sync (get_prop response ''data''))"

text \<open>\<^verbatim>\<open>await this.fetchApi(...)\<close> in a method of type \<^verbatim>\<open>Promise<void>\<close>.\<close>

definition return_void :: "json io \<Rightarrow> unit io" where
  "return_void m = await m (\<lambda>response. resolve ())"


section \<open>Boards\<close>

definition getBoards :: "remote \<Rightarrow> string \<Rightarrow> string option \<Rightarrow> string option \<Rightarrow> json io" where
  "getBoards srv token query' teamId =
     (let params = param_if ''query'' query' @ param_if ''team_id'' teamId in
      return_data (fetchApi srv token ''/boards'' (params_only params)))"

definition getBoard :: "remote \<Rightarrow> string \<Rightarrow> string \<Rightarrow> json io" where
  "getBoard srv token boardId = fetchApi srv token (''/boards/'' @ boardId) no_options"

definition createBoard :: "remote \<Rightarrow> string \<Rightarrow> obj \<Rightarrow> json io" where
  "createBoard srv token data = fetchApi srv token ''/boards'' (method_body ''POST'' (JObj data))"

definition updateBoard :: "remote \<Rightarrow> string \<Rightarrow> string \<Rightarrow> obj \<Rightarrow> json io" where
  "updateBoard srv token boardId data =
     fetchApi srv token (''/boards/'' @ boardId) (method_body ''PATCH'' (JObj data))"

definition copyBoard :: "remote \<Rightarrow> string \<Rightarrow> string \<Rightarrow> obj \<Rightarrow> json io" where
  "copyBoard srv token boardId data =
     fetchApi srv token (''/boards/'' @ boardId @ ''/copy'') (method_body ''POST'' (JObj data))"

definition deleteBoard :: "remote \<Rightarrow> string \<Rightarrow> string \<Rightarrow> unit io" where
  "deleteBoard srv token boardId =
     return_void (fetchApi srv token (''/boards/'' @ boardId) (method_only ''DELETE''))"


section \<open>Items, generic\<close>

text \<open>
  The optional \<^verbatim>\<open>options\<close> object of \<^verbatim>\<open>getBoardItems\<close> is given by its four optional fields
  (all \<open>None\<close> when the object is absent).
\<close>

definition getBoardItems ::
  "remote \<Rightarrow> string \<Rightarrow> string \<Rightarrow> string option \<Rightarrow> string option \<Rightarrow> string option \<Rightarrow> int option \<Rightarrow> json io" where
  "getBoardItems srv token boardId type' parentItemId cursor limit =
     (let params = param_if ''type'' type' @ param_if ''parent_item_id'' parentItemId
                   @ param_if ''cursor'' cursor
                   @ (case limit of None \<Rightarrow> [] | Some n \<Rightarrow> if n = 0 then [] else [(''limit'', show_int n)]) in
      return_data (fetchApi srv token (''/boards/'' @ boardId @ ''/items'') (params_only params)))"

definition getItem :: "remote \<Rightarrow> string \<Rightarrow> string \<Rightarrow> string \<Rightarrow> json io" where
  "getItem srv token boardId itemId =
     fetchApi srv token (''/boards/'' @ boardId @ ''/items/'' @ itemId) no_options"

text \<open>The \<^verbatim>\<open>switch (item.type)\<close> of \<^verbatim>\<open>updateItem\<close>, on the value read from the fetched item.\<close>

definition updateItem_endpoint :: "string \<Rightarrow> string \<Rightarrow> json \<Rightarrow> string" where
  "updateItem_endpoint boardId itemId t =
     (if t = JStr ''sticky_note'' then ''/boards/'' @ boardId @ ''/sticky_notes/'' @ itemId
      else if t = JStr ''shape'' then ''/boards/'' @ boardId @ ''/shapes/'' @ itemId
      else if t = JStr ''text'' then ''/boards/'' @ boardId @ ''/texts/'' @ itemId
      else if t = JStr ''card'' then ''/boards/'' @ boardId @ ''/cards/'' @ itemId
      else if t = JStr ''connector'' then ''/boards/'' @ boardId @ ''/connectors/'' @ itemId
      else if t = JStr ''frame'' then ''/boards/'' @ boardId @ ''/frames/'' @ itemId
      else if t = JStr ''image'' then ''/boards/'' @ boardId @ ''/images/'' @ itemId
      else if t = JStr ''document'' then ''/boards/'' @ boardId @ ''/documents/'' @ itemId
      else if t = JStr ''embed'' then ''/boards/'' @ boardId @ ''/embeds/'' @ itemId
      else ''/boards/'' @ boardId @ ''/items/'' @ itemId)"

definition updateItem :: "remote \<Rightarrow> string \<Rightarrow> string \<Rightarrow> string \<Rightarrow> json \<Rightarrow> json io" where
  "updateItem srv token boardId itemId data =
     await (getItem srv token boardId itemId) (\<lambda>item.
     await (sync (get_prop item ''type'')) (\<lambda>t.
       fetchApi srv token (updateItem_endpoint boardId itemId t) (method_body ''PATCH'' data)))"

definition deleteItem :: "remote \<Rightarrow> string \<Rightarrow> string \<Rightarrow> string \<Rightarrow> unit io" where
  "deleteItem srv token boardId itemId =
     return_void (fetchApi srv token (''/boards/'' @ boardId @ ''/items/'' @ itemId) (method_only ''DELETE''))"


section \<open>Items, by type\<close>

text \<open>\<^verbatim>\<open>{ x: 0, y: 0, origin: 'center' }\<close>, the default of every \<^verbatim>\<open>data.position ||\<close>.\<close>

definition default_position :: json where
  "default_position = JObj [(''x'', JNum 0), (''y'', JNum 0), (''origin'', JStr ''center'')]"

definition createStickyNote :: "remote \<Rightarrow> string \<Rightarrow> string \<Rightarrow> obj \<Rightarrow> json io" where
  "createStickyNote srv token boardId data =
     (let stickyData = JObj
        [(''data'', JObj [(''content'', lookup data ''content'')]),
         (''style'', JObj
            [(''fillColor'', or_else (lookup data ''color'') (JStr ''yellow'')),
             (''textAlign'', JStr ''center''),
             (''textAlignVertical'', JStr ''middle'')]),
         (''position'', or_else (lookup data ''position'') default_position)] in
      fetchApi srv token (''/boards/'' @ boardId @ ''/sticky_notes'') (method_body ''POST'' stickyData))"

definition updateStickyNote :: "remote \<Rightarrow> string \<Rightarrow> string \<Rightarrow> string \<Rightarrow> json \<Rightarrow> json io" where
  "updateStickyNote srv token boardId itemId data =
     fetchApi srv token (''/boards/'' @ boardId @ ''/sticky_notes/'' @ itemId) (method_body ''PATCH'' data)"

definition createShape :: "remote \<Rightarrow> string \<Rightarrow> string \<Rightarrow> obj \<Rightarrow> json io" where
  "createShape srv token boardId data =
     (let shapeData = JObj
        [(''data'', JObj ([(''shape'', lookup data ''shape'')]
                          @ spread_if (lookup data ''content'') [(''content'', lookup data ''content'')])),
         (''position'', or_else (lookup data ''position'') default_position),
         (''geometry'', or_else (lookup data ''geometry'')
            (JObj [(''width'', JNum 200), (''height'', JNum 200), (''rotation'', JNum 0)])),
         (''style'', or_else (lookup data ''style'')
            (JObj [(''fillColor'', JStr ''#ffffff''), (''borderColor'', JStr ''#000000''),
                   (''borderWidth'', JNum 2), (''borderStyle'', JStr ''normal''),
                   (''fillOpacity'', JNum 1), (''borderOpacity'', JNum 1)]))] in
      fetchApi srv token (''/boards/'' @ boardId @ ''/shapes'') (method_body ''POST'' shapeData))"

definition updateShape :: "remote \<Rightarrow> string \<Rightarrow> string \<Rightarrow> string \<Rightarrow> json \<Rightarrow> json io" where
  "updateShape srv token boardId itemId data =
     fetchApi srv token (''/boards/'' @ boardId @ ''/shapes/'' @ itemId) (method_body ''PATCH'' data)"

definition createText :: "remote \<Rightarrow> string \<Rightarrow> string \<Rightarrow> obj \<Rightarrow> json io" where
  "createText srv token boardId data =
     (let textData = JObj
        [(''data'', JObj [(''content'', lookup data ''content'')]),
         (''position'', or_else (lookup data ''position'') default_position),
         (''style'', or_else (lookup data ''style'')
            (JObj [(''color'', JStr ''#000000''), (''fontSize'', JNum 14),
                   (''fontFamily'', JStr ''Arial''), (''textAlign'', JStr ''left'')])),
         (''geometry'', or_else (lookup data ''geometry'') (JObj [(''width'', JNum 200)]))] in
      fetchApi srv token (''/boards/'' @ boardId @ ''/texts'') (method_body ''POST'' textData))"

definition updateText :: "remote \<Rightarrow> string \<Rightarrow> string \<Rightarrow> string \<Rightarrow> json \<Rightarrow> json io" where
  "updateText srv token boardId itemId data =
     fetchApi srv token (''/boards/'' @ boardId @ ''/texts/'' @ itemId) (method_body ''PATCH'' data)"

definition createCard :: "remote \<Rightarrow> string \<Rightarrow> string \<Rightarrow> obj \<Rightarrow> json io" where
  "createCard srv token boardId data =
     (let cardData = JObj
        [(''data'', JObj (spread_if (lookup data ''title'') [(''title'', lookup data ''title'')]
                          @ spread_if (lookup data ''description'') [(''description'', lookup data ''description'')])),
         (''position'', or_else (lookup data ''position'') default_position),
         (''style'', or_else (lookup data ''style'') (JObj [(''cardTheme'', JStr ''#ffffff'')]))] in
      fetchApi srv token (''/boards/'' @ boardId @ ''/cards'') (method_body ''POST'' cardData))"

definition updateCard :: "remote \<Rightarrow> string \<Rightarrow> string \<Rightarrow> string \<Rightarrow> json \<Rightarrow> json io" where
  "updateCard srv token boardId itemId data =
     fetchApi srv token (''/boards/'' @ boardId @ ''/cards/'' @ itemId) (method_body ''PATCH'' data)"

text \<open>
  The argument of \<^verbatim>\<open>createConnector\<close>, also the element type of \<^verbatim>\<open>bulkCreateConnectors\<close>:
  \<^verbatim>\<open>{ startItemId: string; endItemId: string; caption?: string; style?: any }\<close>.
\<close>

record ConnectorData =
  startItemId :: string
  endItemId :: string
  caption :: "string option"
  style :: json

definition createConnector :: "remote \<Rightarrow> string \<Rightarrow> string \<Rightarrow> ConnectorData \<Rightarrow> json io" where
  "createConnector srv token boardId data =
     (let connectorData = JObj
        ([(''startItem'', JObj [(''id'', JStr (startItemId data)), (''snapTo'', JStr ''auto'')]),
          (''endItem'', JObj [(''id'', JStr (endItemId data)), (''snapTo'', JStr ''auto'')])]
         @ (case caption data of
              None \<Rightarrow> []
            | Some c \<Rightarrow>
                if c = [] then []
                else [(''captions'', JArr [JObj [(''content'', JStr c), (''position'', JStr ''50%'')]])])
         @ [(''style'', or_else (ConnectorData.style data)
               (JObj [(''strokeColor'', JStr ''#000000''), (''strokeWidth'', JNum 2),
                      (''strokeStyle'', JStr ''normal'')]))]) in
      fetchApi srv token (''/boards/'' @ boardId @ ''/connectors'') (method_body ''POST'' connectorData))"

definition updateConnector :: "remote \<Rightarrow> string \<Rightarrow> string \<Rightarrow> string \<Rightarrow> json \<Rightarrow> json io" where
  "updateConnector srv token boardId itemId data =
     fetchApi srv token (''/boards/'' @ boardId @ ''/connectors/'' @ itemId) (method_body ''PATCH'' data)"

definition createFrame :: "remote \<Rightarrow> string \<Rightarrow> string \<Rightarrow> obj \<Rightarrow> json io" where
  "createFrame srv token boardId data =
     (let frameData = JObj
        [(''data'', JObj (spread_if (lookup data ''title'') [(''title'', lookup data ''title'')])),
         (''position'', or_else (lookup data ''position'') default_position),
         (''geometry'', or_else (lookup data ''geometry'')
            (JObj [(''width'', JNum 400), (''height'', JNum 300)])),
         (''style'', or_else (lookup data ''style'') (JObj [(''fillColor'', JStr ''#ffffff'')]))] in
      fetchApi srv token (''/boards/'' @ boardId @ ''/frames'') (method_body ''POST'' frameData))"

definition updateFrame :: "remote \<Rightarrow> string \<Rightarrow> string \<Rightarrow> string \<Rightarrow> json \<Rightarrow> json io" where
  "updateFrame srv token boardId itemId data =
     fetchApi srv token (''/boards/'' @ boardId @ ''/frames/'' @ itemId) (method_body ''PATCH'' data)"

definition getFrames :: "remote \<Rightarrow> string \<Rightarrow> string \<Rightarrow> json io" where
  "getFrames srv token boardId = getBoardItems srv token boardId (Some ''frame'') None None None"

definition getItemsInFrame :: "remote \<Rightarrow> string \<Rightarrow> string \<Rightarrow> string \<Rightarrow> json io" where
  "getItemsInFrame srv token boardId frameId = getBoardItems srv token boardId None (Some frameId) None None"

definition createImage :: "remote \<Rightarrow> string \<Rightarrow> string \<Rightarrow> obj \<Rightarrow> json io" where
  "createImage srv token boardId data =
     (let imageData = JObj
        [(''data'', JObj [(''url'', lookup data ''url'')]),
         (''position'', or_else (lookup data ''position'') default_position),
         (''geometry'', or_else (lookup data ''geometry'')
            (JObj [(''width'', JNum 200), (''height'', JNum 200)]))] in
      fetchApi srv token (''/boards/'' @ boardId @ ''/images'') (method_body ''POST'' imageData))"

definition updateImage :: "remote \<Rightarrow> string \<Rightarrow> string \<Rightarrow> string \<Rightarrow> json \<Rightarrow> json io" where
  "updateImage srv token boardId itemId data =
     fetchApi srv token (''/boards/'' @ boardId @ ''/images/'' @ itemId) (method_body ''PATCH'' data)"

definition createDocument :: "remote \<Rightarrow> string \<Rightarrow> string \<Rightarrow> obj \<Rightarrow> json io" where
  "createDocument srv token boardId data =
     (let documentData = JObj
        [(''data'', JObj ([(''url'', lookup data ''url'')]
                          @ spread_if (lookup data ''title'') [(''title'', lookup data ''title'')])),
         (''position'', or_else (lookup data ''position'') default_position)] in
      fetchApi srv token (''/boards/'' @ boardId @ ''/documents'') (method_body ''POST'' documentData))"

definition updateDocument :: "remote \<Rightarrow> string \<Rightarrow> string \<Rightarrow> string \<Rightarrow> json \<Rightarrow> json io" where
  "updateDocument srv token boardId itemId data =
     fetchApi srv token (''/boards/'' @ boardId @ ''/documents/'' @ itemId) (method_body ''PATCH'' data)"

definition createEmbed :: "remote \<Rightarrow> string \<Rightarrow> string \<Rightarrow> obj \<Rightarrow> json io" where
  "createEmbed srv token boardId data =
     (let embedData = JObj
        [(''data'', JObj [(''url'', lookup data ''url'')]),
         (''position'', or_else (lookup data ''position'') default_position),
         (''geometry'', or_else (lookup data ''geometry'')
            (JObj [(''width'', JNum 320), (''height'', JNum 180)]))] in
      fetchApi srv token (''/boards/'' @ boardId @ ''/embeds'') (method_body ''POST'' embedData))"

definition updateEmbed :: "remote \<Rightarrow> string \<Rightarrow> string \<Rightarrow> string \<Rightarrow> json \<Rightarrow> json io" where
  "updateEmbed srv token boardId itemId data =
     fetchApi srv token (''/boards/'' @ boardId @ ''/embeds/'' @ itemId) (method_body ''PATCH'' data)"


section \<open>Tags, groups, members, webhooks, search\<close>

definition getTags :: "remote \<Rightarrow> string \<Rightarrow> string \<Rightarrow> json io" where
  "getTags srv token boardId =
     return_data (fetchApi srv token (''/boards/'' @ boardId @ ''/tags'') no_options)"

definition createTag :: "remote \<Rightarrow> string \<Rightarrow> string \<Rightarrow> obj \<Rightarrow> json io" where
  "createTag srv token boardId data =
     (let tagData = JObj
        [(''title'', lookup data ''title''),
         (''fillColor'', or_else (lookup data ''fillColor'') (JStr ''red''))] in
      fetchApi srv token (''/boards/'' @ boardId @ ''/tags'') (method_body ''POST'' tagData))"

definition updateTag :: "remote \<Rightarrow> string \<Rightarrow> string \<Rightarrow> string \<Rightarrow> obj \<Rightarrow> json io" where
  "updateTag srv token boardId tagId data =
     fetchApi srv token (''/boards/'' @ boardId @ ''/tags/'' @ tagId) (method_body ''PATCH'' (JObj data))"

definition deleteTag :: "remote \<Rightarrow> string \<Rightarrow> string \<Rightarrow> string \<Rightarrow> unit io" where
  "deleteTag srv token boardId tagId =
     return_void (fetchApi srv token (''/boards/'' @ boardId @ ''/tags/'' @ tagId) (method_only ''DELETE''))"

definition attachTagToItem :: "remote \<Rightarrow> string \<Rightarrow> string \<Rightarrow> string \<Rightarrow> string \<Rightarrow> unit io" where
  "attachTagToItem srv token boardId itemId tagId =
     return_void (fetchApi srv token (''/boards/'' @ boardId @ ''/items/'' @ itemId @ ''/tags/'' @ tagId)
                    (method_only ''POST''))"

definition removeTagFromItem :: "remote \<Rightarrow> string \<Rightarrow> string \<Rightarrow> string \<Rightarrow> string \<Rightarrow> unit io" where
  "removeTagFromItem srv token boardId itemId tagId =
     return_void (fetchApi srv token (''/boards/'' @ boardId @ ''/items/'' @ itemId @ ''/tags/'' @ tagId)
                    (method_only ''DELETE''))"

definition createGroup :: "remote \<Rightarrow> string \<Rightarrow> string \<Rightarrow> obj \<Rightarrow> json io" where
  "createGroup srv token boardId data =
     (let groupData = JObj
        ([(''itemIds'', lookup data ''itemIds'')]
         @ spread_if (lookup data ''title'') [(''data'', JObj [(''title'', lookup data ''title'')])]
         @ [(''style'', or_else (lookup data ''style'') (JObj [(''fillColor'', JStr ''#ffffff'')]))]) in
      fetchApi srv token (''/boards/'' @ boardId @ ''/groups'') (method_body ''POST'' groupData))"

definition updateGroup :: "remote \<Rightarrow> string \<Rightarrow> string \<Rightarrow> string \<Rightarrow> json \<Rightarrow> json io" where
  "updateGroup srv token boardId groupId data =
     fetchApi srv token (''/boards/'' @ boardId @ ''/groups/'' @ groupId) (method_body ''PATCH'' data)"

definition deleteGroup :: "remote \<Rightarrow> string \<Rightarrow> string \<Rightarrow> string \<Rightarrow> unit io" where
  "deleteGroup srv token boardId groupId =
     return_void (fetchApi srv token (''/boards/'' @ boardId @ ''/groups/'' @ groupId) (method_only ''DELETE''))"

definition getBoardMembers :: "remote \<Rightarrow> string \<Rightarrow> string \<Rightarrow> json io" where
  "getBoardMembers srv token boardId =
     return_data (fetchApi srv token (''/boards/'' @ boardId @ ''/members'') no_options)"

definition shareBoardWithUser :: "remote \<Rightarrow> string \<Rightarrow> string \<Rightarrow> obj \<Rightarrow> json io" where
  "shareBoardWithUser srv token boardId data =
     fetchApi srv token (''/boards/'' @ boardId @ ''/members'') (method_body ''POST'' (JObj data))"

definition updateBoardMember :: "remote \<Rightarrow> string \<Rightarrow> string \<Rightarrow> string \<Rightarrow> obj \<Rightarrow> json io" where
  "updateBoardMember srv token boardId memberId data =
     fetchApi srv token (''/boards/'' @ boardId @ ''/members/'' @ memberId) (method_body ''PATCH'' (JObj data))"

definition removeBoardMember :: "remote \<Rightarrow> string \<Rightarrow> string \<Rightarrow> string \<Rightarrow> unit io" where
  "removeBoardMember srv token boardId memberId =
     return_void (fetchApi srv token (''/boards/'' @ boardId @ ''/members/'' @ memberId) (method_only ''DELETE''))"

definition createWebhook :: "remote \<Rightarrow> string \<Rightarrow> obj \<Rightarrow> json io" where
  "createWebhook srv token data = fetchApi srv token ''/webhooks'' (method_body ''POST'' (JObj data))"

definition getWebhooks :: "remote \<Rightarrow> string \<Rightarrow> json io" where
  "getWebhooks srv token = return_data (fetchApi srv token ''/webhooks'' no_options)"

definition updateWebhook :: "remote \<Rightarrow> string \<Rightarrow> string \<Rightarrow> obj \<Rightarrow> json io" where
  "updateWebhook srv token webhookId data =
     fetchApi srv token (''/webhooks/'' @ webhookId) (method_body ''PATCH'' (JObj data))"

definition deleteWebhook :: "remote \<Rightarrow> string \<Rightarrow> string \<Rightarrow> unit io" where
  "deleteWebhook srv token webhookId =
     return_void (fetchApi srv token (''/webhooks/'' @ webhookId) (method_only ''DELETE''))"

definition searchItems :: "remote \<Rightarrow> string \<Rightarrow> string \<Rightarrow> string \<Rightarrow> json io" where
  "searchItems srv token boardId query' =
     return_data (fetchApi srv token (''/boards/'' @ boardId @ ''/items'') (params_only [(''query'', query')]))"


section \<open>Bulk operations\<close>

text \<open>
  A bulk operation also writes to \<^verbatim>\<open>console.error\<close>: the message and the caught error of
  every element that failed. The client methods it calls only extend the request log.
\<close>

record world =
  calls :: "request list"
  console :: "(string \<times> error) list"

text \<open>
  \<^verbatim>\<open>CreateItemData\<close>. The bags are any value at run time; an absent optional field is
  \<^verbatim>\<open>undefined\<close>.
\<close>

record CreateItemData =
  type :: string
  data :: json
  style :: json
  position :: json
  geometry :: json
  parent :: json

text \<open>
  The body of the \<^verbatim>\<open>try\<close> block of \<^verbatim>\<open>bulkCreateItems\<close> for one element: the switch on
  \<^verbatim>\<open>item.type\<close>, whose arguments read \<^verbatim>\<open>item.data.p\<close> before the call.
\<close>

definition bulkCreateItems_try :: "remote \<Rightarrow> string \<Rightarrow> string \<Rightarrow> CreateItemData \<Rightarrow> json io" where
  "bulkCreateItems_try srv token boardId item =
     (if type item = ''sticky_note'' then
        await (sync (get_prop (CreateItemData.data item) ''content'')) (\<lambda>content.
          createStickyNote srv token boardId
            [(''content'', content),
             (''color'', or_else (opt_prop (CreateItemData.style item) ''fillColor'') (JStr ''yellow'')),
             (''position'', position item)])
      else if type item = ''text'' then
        await (sync (get_prop (CreateItemData.data item) ''content'')) (\<lambda>content.
          createText srv token boardId
            [(''content'', content), (''position'', position item),
             (''style'', CreateItemData.style item), (''geometry'', geometry item)])
      else if type item = ''shape'' then
        await (sync (get_prop (CreateItemData.data item) ''shape'')) (\<lambda>shape.
        await (sync (get_prop (CreateItemData.data item) ''content'')) (\<lambda>content.
          createShape srv token boardId
            [(''shape'', shape), (''content'', content), (''position'', position item),
             (''geometry'', geometry item), (''style'', CreateItemData.style item)]))
      else if type item = ''card'' then
        await (sync (get_prop (CreateItemData.data item) ''title'')) (\<lambda>title.
        await (sync (get_prop (CreateItemData.data item) ''description'')) (\<lambda>description.
          createCard srv token boardId
            [(''title'', title), (''description'', description), (''position'', position item),
             (''style'', CreateItemData.style item)]))
      else if type item = ''frame'' then
        await (sync (get_prop (CreateItemData.data item) ''title'')) (\<lambda>title.
          createFrame srv token boardId
            [(''title'', title), (''position'', position item),
             (''geometry'',
                if truthy (geometry item)
                then JObj [(''width'', or_else (field (geometry item) ''width'') (JNum 400)),
                           (''height'', or_else (field (geometry item) ''height'') (JNum 300))]
                else JUndefined),
             (''style'', CreateItemData.style item)])
      else if type item = ''image'' then
        await (sync (get_prop (CreateItemData.data item) ''url'')) (\<lambda>url.
          createImage srv token boardId
            [(''url'', url), (''position'', position item), (''geometry'', geometry item)])
      else if type item = ''document'' then
        await (sync (get_prop (CreateItemData.data item) ''url'')) (\<lambda>url.
        await (sync (get_prop (CreateItemData.data item) ''title'')) (\<lambda>title.
          createDocument srv token boardId
            [(''url'', url), (''title'', title), (''position'', position item)]))
      else if type item = ''embed'' then
        await (sync (get_prop (CreateItemData.data item) ''url'')) (\<lambda>url.
          createEmbed srv token boardId
            [(''url'', url), (''position'', position item), (''geometry'', geometry item)])
      else throw (Error (''Unsupported item type: '' @ type item)))"

text \<open>The \<^verbatim>\<open>for\<close> loop of \<^verbatim>\<open>bulkCreateItems\<close> with its \<^verbatim>\<open>try\<close>/\<^verbatim>\<open>catch\<close>.\<close>

fun bulkCreateItems_loop ::
  "remote \<Rightarrow> string \<Rightarrow> string \<Rightarrow> CreateItemData list \<Rightarrow> json list \<Rightarrow> world \<Rightarrow> json list \<times> world" where
  "bulkCreateItems_loop srv token boardId [] createdItems w = (createdItems, w)"
| "bulkCreateItems_loop srv token boardId (item # items) createdItems w =
     (case bulkCreateItems_try srv token boardId item (calls w) of
        (Inr createdItem, cs) \<Rightarrow>
          bulkCreateItems_loop srv token boardId items (createdItems @ [createdItem]) (w\<lparr>calls := cs\<rparr>)
      | (Inl err, cs) \<Rightarrow>
          bulkCreateItems_loop srv token boardId items createdItems
            (w\<lparr>calls := cs,
               console := console w @ [(''Failed to create item of type '' @ type item @ '':'', err)]\<rparr>))"

definition bulkCreateItems ::
  "remote \<Rightarrow> string \<Rightarrow> string \<Rightarrow> CreateItemData list \<Rightarrow> world \<Rightarrow> (error + json list) \<times> world" where
  "bulkCreateItems srv token boardId items w =
     (if length items > 20
      then (Inl (Error ''Cannot create more than 20 items in a single bulk operation''), w)
      else (case bulkCreateItems_loop srv token boardId items [] w of
              (createdItems, w') \<Rightarrow> (Inr createdItems, w')))"

text \<open>The element type of \<^verbatim>\<open>bulkUpdateItems\<close>: \<^verbatim>\<open>{ id: string; data: any }\<close>.\<close>

record ItemUpdate =
  id' :: string
  data :: json

fun bulkUpdateItems_loop ::
  "remote \<Rightarrow> string \<Rightarrow> string \<Rightarrow> ItemUpdate list \<Rightarrow> json list \<Rightarrow> world \<Rightarrow> json list \<times> world" where
  "bulkUpdateItems_loop srv token boardId [] updatedItems w = (updatedItems, w)"
| "bulkUpdateItems_loop srv token boardId (update # updates) updatedItems w =
     (case updateItem srv token boardId (id' update) (ItemUpdate.data update) (calls w) of
        (Inr updatedItem, cs) \<Rightarrow>
          bulkUpdateItems_loop srv token boardId updates (updatedItems @ [updatedItem]) (w\<lparr>calls := cs\<rparr>)
      | (Inl err, cs) \<Rightarrow>
          bulkUpdateItems_loop srv token boardId updates updatedItems
            (w\<lparr>calls := cs,
               console := console w @ [(''Failed to update item '' @ id' update @ '':'', err)]\<rparr>))"

definition bulkUpdateItems ::
  "remote \<Rightarrow> string \<Rightarrow> string \<Rightarrow> ItemUpdate list \<Rightarrow> world \<Rightarrow> (error + json list) \<times> world" where
  "bulkUpdateItems srv token boardId updates w =
     (if length updates > 20
      then (Inl (Error ''Cannot update more than 20 items in a single bulk operation''), w)
      else (case bulkUpdateItems_loop srv token boardId updates [] w of
              (updatedItems, w') \<Rightarrow> (Inr updatedItems, w')))"

fun bulkDeleteItems_loop :: "remote \<Rightarrow> string \<Rightarrow> string \<Rightarrow> string list \<Rightarrow> world \<Rightarrow> world" where
  "bulkDeleteItems_loop srv token boardId [] w = w"
| "bulkDeleteItems_loop srv token boardId (itemId # itemIds) w =
     (case deleteItem srv token boardId itemId (calls w) of
        (Inr u, cs) \<Rightarrow> bulkDeleteItems_loop srv token boardId itemIds (w\<lparr>calls := cs\<rparr>)
      | (Inl err, cs) \<Rightarrow>
          bulkDeleteItems_loop srv token boardId itemIds
            (w\<lparr>calls := cs,
               console := console w @ [(''Failed to delete item '' @ itemId @ '':'', err)]\<rparr>))"

definition bulkDeleteItems ::
  "remote \<Rightarrow> string \<Rightarrow> string \<Rightarrow> string list \<Rightarrow> world \<Rightarrow> (error + unit) \<times> world" where
  "bulkDeleteItems srv token boardId itemIds w =
     (if length itemIds > 20
      then (Inl (Error ''Cannot delete more than 20 items in a single bulk operation''), w)
      else (Inr (), bulkDeleteItems_loop srv token boardId itemIds w))"

fun bulkCreateConnectors_loop ::
  "remote \<Rightarrow> string \<Rightarrow> string \<Rightarrow> ConnectorData list \<Rightarrow> json list \<Rightarrow> world \<Rightarrow> json list \<times> world" where
  "bulkCreateConnectors_loop srv token boardId [] createdConnectors w = (createdConnectors, w)"
| "bulkCreateConnectors_loop srv token boardId (connector # connectors) createdConnectors w =
     (case createConnector srv token boardId connector (calls w) of
        (Inr createdConnector, cs) \<Rightarrow>
          bulkCreateConnectors_loop srv token boardId connectors
            (createdConnectors @ [createdConnector]) (w\<lparr>calls := cs\<rparr>)
      | (Inl err, cs) \<Rightarrow>
          bulkCreateConnectors_loop srv token boardId connectors createdConnectors
            (w\<lparr>calls := cs,
               console := console w @
                 [(''Failed to create connector from '' @ startItemId connector @ '' to ''
                   @ endItemId connector @ '':'', err)]\<rparr>))"

definition bulkCreateConnectors ::
  "remote \<Rightarrow> string \<Rightarrow> string \<Rightarrow> ConnectorData list \<Rightarrow> world \<Rightarrow> (error + json list) \<times> world" where
  "bulkCreateConnectors srv token boardId connectors w =
     (if length connectors > 20
      then (Inl (Error ''Cannot create more than 20 connectors at once''), w)
      else (case bulkCreateConnectors_loop srv token boardId connectors [] w of
              (createdConnectors, w') \<Rightarrow> (Inr createdConnectors, w')))"


section \<open>Startup: the credential\<close>

text \<open>
  \<^verbatim>\<open>(argv.token as string) || process.env.MIRO_OAUTH_TOKEN\<close>: both operands are a string or
  \<^verbatim>\<open>undefined\<close>, and \<^verbatim>\<open>||\<close> takes the right one when the left one is \<^verbatim>\<open>undefined\<close> or empty.
\<close>

definition oauthToken :: "string option \<Rightarrow> string option \<Rightarrow> string option" where
  "oauthToken argv_token env_MIRO_OAUTH_TOKEN =
     (case argv_token of
        None \<Rightarrow> env_MIRO_OAUTH_TOKEN
      | Some t \<Rightarrow> if t = [] then env_MIRO_OAUTH_TOKEN else Some t)"

text \<open>
  The top-level statements of the entry point up to \<^verbatim>\<open>new MiroClient(oauthToken)\<close>:
  \<^verbatim>\<open>if (!oauthToken) { ...; process.exit(1) }\<close>, then the client is built with the token.
  None of them issues a request; the request log is passed through.
\<close>

datatype startup = Exit nat | Client string

definition main_startup :: "string option \<Rightarrow> string option \<Rightarrow> request list \<Rightarrow> startup \<times> request list" where
  "main_startup argv_token env_MIRO_OAUTH_TOKEN cs =
     (case oauthToken argv_token env_MIRO_OAUTH_TOKEN of
        None \<Rightarrow> (Exit 1, cs)
      | Some t \<Rightarrow> if t = [] then (Exit 1, cs) else (Client t, cs))"


section \<open>Notions for stating the batch properties\<close>

text \<open>
  The outcome of each element's client call, in input order, each call issued on the log
  that the calls of the elements before it have left; and the log after the last one.
\<close>

fun outcomes :: "('a \<Rightarrow> 'b io) \<Rightarrow> 'a list \<Rightarrow> request list \<Rightarrow> (error + 'b) list" where
  "outcomes f [] cs = []"
| "outcomes f (x # xs) cs = fst (f x cs) # outcomes f xs (snd (f x cs))"

fun calls_after :: "('a \<Rightarrow> 'b io) \<Rightarrow> 'a list \<Rightarrow> request list \<Rightarrow> request list" where
  "calls_after f [] cs = cs"
| "calls_after f (x # xs) cs = calls_after f xs (snd (f x cs))"

text \<open>The values of the successful outcomes, and the console lines of the failed ones.\<close>

fun successes :: "(error + 'b) list \<Rightarrow> 'b list" where
  "successes [] = []"
| "successes (Inr v # rs) = v # successes rs"
| "successes (Inl e # rs) = successes rs"

fun failures :: "('a \<Rightarrow> string) \<Rightarrow> 'a list \<Rightarrow> (error + 'b) list \<Rightarrow> (string \<times> error) list" where
  "failures msg (x # xs) (Inl e # rs) = (msg x, e) # failures msg xs rs"
| "failures msg (x # xs) (Inr v # rs) = failures msg xs rs"
| "failures msg xs rs = []"

text \<open>The common shape of the four loops, to reason about them once.\<close>

fun try_each ::
  "('a \<Rightarrow> 'b io) \<Rightarrow> ('a \<Rightarrow> string) \<Rightarrow> 'a list \<Rightarrow> 'b list \<Rightarrow> world \<Rightarrow> 'b list \<times> world" where
  "try_each f msg [] acc w = (acc, w)"
| "try_each f msg (x # xs) acc w =
     (case f x (calls w) of
        (Inr v, cs) \<Rightarrow> try_each f msg xs (acc @ [v]) (w\<lparr>calls := cs\<rparr>)
      | (Inl err, cs) \<Rightarrow> try_each f msg xs acc (w\<lparr>calls := cs, console := console w @ [(msg x, err)]\<rparr>))"

text \<open>The console messages of the four loops.\<close>

definition create_msg :: "CreateItemData \<Rightarrow> string" where
  "create_msg item = ''Failed to create item of type '' @ type item @ '':''"

definition update_msg :: "ItemUpdate \<Rightarrow> string" where
  "update_msg update = ''Failed to update item '' @ id' update @ '':''"

definition delete_msg :: "string \<Rightarrow> string" where
  "delete_msg itemId = ''Failed to delete item '' @ itemId @ '':''"

definition connector_msg :: "ConnectorData \<Rightarrow> string" where
  "connector_msg connector =
     ''Failed to create connector from '' @ startItemId connector @ '' to '' @ endItemId connector @ '':''"

text \<open>The element types that the switch of \<^verbatim>\<open>bulkCreateItems\<close> has no case for, among those of
  \<^verbatim>\<open>CreateItemData\<close>.\<close>

definition unsupported :: "CreateItemData \<Rightarrow> bool" where
  "unsupported item \<longleftrightarrow> type item = ''connector'' \<or> type item = ''app_card''"

section \<open>Notions for stating the properties of single operations\<close>

text \<open>
  A client method, run on the log \<open>cs\<close>, issues exactly one request, the remote answers it
  with a response outside the 2xx range, and the method's outcome is the API error of that
  response, as \<^verbatim>\<open>fetchApi\<close> raised it.
\<close>

definition propagates_api_error :: "remote \<Rightarrow> request list \<Rightarrow> 'a io \<Rightarrow> bool" where
  "propagates_api_error srv cs m \<longleftrightarrow>
     (\<exists>q r. srv cs q = Inr r \<and> \<not> ok r \<and> m cs = (Inl (api_error r), cs @ [q]))"

text \<open>The \<^verbatim>\<open>Content-Type\<close> header of a response is absent or does not include
  \<^verbatim>\<open>application/json\<close>.\<close>

definition not_json :: "response \<Rightarrow> bool" where
  "not_json r \<longleftrightarrow> (case contentType r of None \<Rightarrow> True | Some ct \<Rightarrow> \<not> includes_str ct ''application/json'')"


section \<open>Test doubles\<close>

definition empty_world :: world where
  "empty_world = \<lparr>calls = [], console = []\<rparr>"

text \<open>A remote that accepts everything and answers with the request body as the item.\<close>

definition created :: "request \<Rightarrow> response" where
  "created q =
     \<lparr>status = 201, statusText = ''Created'', contentType = Some ''application/json; charset=utf-8'',
      bodyText = [], bodyJson = Inr (case body q of None \<Rightarrow> JObj [] | Some b \<Rightarrow> b)\<rparr>"

definition echo_remote :: remote where
  "echo_remote cs q = Inr (created q)"

text \<open>The same, except that the second request of the process is answered with a 500.\<close>

definition server_error :: response where
  "server_error =
     \<lparr>status = 500, statusText = ''Internal Server Error'', contentType = Some ''text/plain'',
      bodyText = ''boom'', bodyJson = Inl (FetchError ''invalid json'')\<rparr>"

definition second_fails :: remote where
  "second_fails cs q = (if length cs = 1 then Inr server_error else Inr (created q))"

definition sticky :: "string \<Rightarrow> CreateItemData" where
  "sticky c =
     \<lparr>type = ''sticky_note'', data = JObj [(''content'', JStr c)], style = JUndefined,
      position = JUndefined, geometry = JUndefined, parent = JUndefined\<rparr>"

definition of_type :: "string \<Rightarrow> CreateItemData" where
  "of_type t =
     \<lparr>type = t, data = JObj [], style = JUndefined,
      position = JUndefined, geometry = JUndefined, parent = JUndefined\<rparr>"

definition link :: "string \<Rightarrow> string \<Rightarrow> ConnectorData" where
  "link a b = \<lparr>startItemId = a, endItemId = b, caption = None, style = JUndefined\<rparr>"

definition change :: "string \<Rightarrow> ItemUpdate" where
  "change i = \<lparr>id' = i, data = JObj [(''data'', JObj [(''content'', JStr ''new'')])]\<rparr>"

text \<open>What the accepting remote answers to the requests above, and the error of the 500.\<close>

definition sticky_item :: "string \<Rightarrow> json" where
  "sticky_item c = JObj
     [(''data'', JObj [(''content'', JStr c)]),
      (''style'', JObj [(''fillColor'', JStr ''yellow''), (''textAlign'', JStr ''center''),
                        (''textAlignVertical'', JStr ''middle'')]),
      (''position'', JObj [(''x'', JNum 0), (''y'', JNum 0), (''origin'', JStr ''center'')])]"

definition link_item :: "string \<Rightarrow> string \<Rightarrow> json" where
  "link_item a b = JObj
     [(''startItem'', JObj [(''id'', JStr a), (''snapTo'', JStr ''auto'')]),
      (''endItem'', JObj [(''id'', JStr b), (''snapTo'', JStr ''auto'')]),
      (''style'', JObj [(''strokeColor'', JStr ''#000000''), (''strokeWidth'', JNum 2),
                        (''strokeStyle'', JStr ''normal'')])]"

definition changed_item :: json where
  "changed_item = JObj [(''data'', JObj [(''content'', JStr ''new'')])]"

definition boom :: error where
  "boom = Error ''Miro API error: 500 Internal Server Error - boom''"

text \<open>Remotes that answer every request alike.\<close>

definition not_found :: response where
  "not_found =
     \<lparr>status = 404, statusText = ''Not Found'', contentType = Some ''application/json'',
      bodyText = ''board not found'', bodyJson = Inr (JObj [(''message'', JStr ''board not found'')])\<rparr>"

definition always_404 :: remote where
  "always_404 cs q = Inr not_found"

definition no_content :: response where
  "no_content =
     \<lparr>status = 204, statusText = ''No Content'', contentType = None,
      bodyText = [], bodyJson = Inl (FetchError ''Unexpected end of JSON input'')\<rparr>"

definition always_204 :: remote where
  "always_204 cs q = Inr no_content"

definition empty_200 :: response where
  "empty_200 =
     \<lparr>status = 200, statusText = ''OK'', contentType = Some ''application/json'',
      bodyText = [], bodyJson = Inl (FetchError ''Unexpected end of JSON input'')\<rparr>"

definition always_empty_200 :: remote where
  "always_empty_200 cs q = Inr empty_200"

definition html_page :: response where
  "html_page =
     \<lparr>status = 200, statusText = ''OK'', contentType = Some ''text/html'',
      bodyText = ''<html></html>'', bodyJson = Inl (FetchError ''Unexpected token <'')\<rparr>"

definition always_html :: remote where
  "always_html cs q = Inr html_page"

text \<open>A board whose item is a shape: a read answers with the item, a write is accepted
  (by \<open>shape_board\<close>) or refused with a 400 (by \<open>shape_board_refusing\<close>).\<close>

definition shape_found :: response where
  "shape_found =
     \<lparr>status = 200, statusText = ''OK'', contentType = Some ''application/json'',
      bodyText = [], bodyJson = Inr (JObj [(''id'', JStr ''i1''), (''type'', JStr ''shape'')])\<rparr>"

definition bad_request :: response where
  "bad_request =
     \<lparr>status = 400, statusText = ''Bad Request'', contentType = Some ''application/json'',
      bodyText = ''invalid'', bodyJson = Inr (JObj [(''message'', JStr ''invalid'')])\<rparr>"

definition shape_board :: remote where
  "shape_board cs q = (if method q = ''GET'' then Inr shape_found else Inr (created q))"

definition shape_board_refusing :: remote where
  "shape_board_refusing cs q = (if method q = ''GET'' then Inr shape_found else Inr bad_request)"

definition new_content :: json where
  "new_content = JObj [(''data'', JObj [(''content'', JStr ''new'')])]"


section \<open>Every call of fetchApi is one request\<close>

lemma fetchApi_answered:
  "srv cs (build_request token path opts) = Inr r \<Longrightarrow>
   fetchApi srv token path opts cs = (interpret_response opts r, cs @ [build_request token path opts])"
  by (simp add: fetchApi_def)

lemma fetchApi_log: "snd (fetchApi srv token path opts cs) = cs @ [build_request token path opts]"
  by (simp add: fetchApi_def Let_def split: sum.splits)


section \<open>The four loops are one loop\<close>

lemma try_each_fst: "fst (try_each f msg xs acc w) = acc @ successes (outcomes f xs (calls w))"
  by (induction xs arbitrary: acc w) (auto split: sum.splits prod.splits)

lemma try_each_calls: "calls (snd (try_each f msg xs acc w)) = calls_after f xs (calls w)"
  by (induction xs arbitrary: acc w) (auto split: sum.splits prod.splits)

lemma try_each_console:
  "console (snd (try_each f msg xs acc w)) = console w @ failures msg xs (outcomes f xs (calls w))"
  by (induction xs arbitrary: acc w) (auto split: sum.splits prod.splits)

lemma loop_create:
  "bulkCreateItems_loop srv token boardId items acc w =
   try_each (bulkCreateItems_try srv token boardId) create_msg items acc w"
  by (induction items arbitrary: acc w) (simp_all add: create_msg_def split: sum.splits prod.splits)

lemma loop_update:
  "bulkUpdateItems_loop srv token boardId updates acc w =
   try_each (\<lambda>u. updateItem srv token boardId (id' u) (ItemUpdate.data u)) update_msg updates acc w"
  by (induction updates arbitrary: acc w) (simp_all add: update_msg_def split: sum.splits prod.splits)

lemma loop_connectors:
  "bulkCreateConnectors_loop srv token boardId connectors acc w =
   try_each (createConnector srv token boardId) connector_msg connectors acc w"
  by (induction connectors arbitrary: acc w) (simp_all add: connector_msg_def split: sum.splits prod.splits)

lemma loop_delete:
  "bulkDeleteItems_loop srv token boardId itemIds w =
   snd (try_each (deleteItem srv token boardId) delete_msg itemIds acc w)"
proof (induction itemIds arbitrary: w acc)
  case Nil
  show ?case by simp
next
  case (Cons itemId itemIds)
  show ?case
  proof (cases "deleteItem srv token boardId itemId (calls w)")
    case (Pair r cs)
    then show ?thesis
      using Cons.IH by (cases r) (simp_all add: delete_msg_def)
  qed
qed

lemma length_outcomes: "length (outcomes f xs cs) = length xs"
  by (induction xs arbitrary: cs) auto

lemma successes_all: "successes (map Inr vs) = vs"
  by (induction vs) auto

lemma successes_append: "successes (rs @ rs') = successes rs @ successes rs'"
  by (induction rs rule: successes.induct) auto

lemma successes_one_failure: "successes (map Inr pre @ Inl e # map Inr post) = pre @ post"
  by (simp add: successes_append successes_all)

lemma failures_none: "length xs = length vs \<Longrightarrow> failures msg xs (map Inr vs) = []"
  by (induction xs vs rule: list_induct2) auto

lemma failures_one:
  "length xs = Suc (length pre + length post) \<Longrightarrow>
   failures msg xs (map Inr pre @ Inl e # map Inr post) = [(msg (xs ! length pre), e)]"
proof (induction pre arbitrary: xs)
  case Nil
  then obtain x xs' where xs: "xs = x # xs'" and "length xs' = length post"
    by (cases xs) auto
  then show ?case by (simp add: failures_none)
next
  case (Cons v pre)
  then obtain x xs' where xs: "xs = x # xs'" and "length xs' = Suc (length pre + length post)"
    by (cases xs) auto
  then show ?case using Cons.IH [of xs'] by simp
qed

text \<open>What a bulk operation within the limit returns, by outcomes.\<close>

lemma bulkCreateItems_outcomes:
  assumes "length items \<le> 20"
  shows "fst (bulkCreateItems srv token boardId items w) =
           Inr (successes (outcomes (bulkCreateItems_try srv token boardId) items (calls w)))"
    and "calls (snd (bulkCreateItems srv token boardId items w)) =
           calls_after (bulkCreateItems_try srv token boardId) items (calls w)"
    and "console (snd (bulkCreateItems srv token boardId items w)) =
           console w @ failures create_msg items (outcomes (bulkCreateItems_try srv token boardId) items (calls w))"
  using assms try_each_fst [of "bulkCreateItems_try srv token boardId" create_msg items "[]" w]
    try_each_calls [of "bulkCreateItems_try srv token boardId" create_msg items "[]" w]
    try_each_console [of "bulkCreateItems_try srv token boardId" create_msg items "[]" w]
  by (simp_all add: bulkCreateItems_def loop_create case_prod_beta)

lemma bulkUpdateItems_outcomes:
  assumes "length updates \<le> 20"
  shows "fst (bulkUpdateItems srv token boardId updates w) =
           Inr (successes (outcomes (\<lambda>u. updateItem srv token boardId (id' u) (ItemUpdate.data u)) updates (calls w)))"
    and "calls (snd (bulkUpdateItems srv token boardId updates w)) =
           calls_after (\<lambda>u. updateItem srv token boardId (id' u) (ItemUpdate.data u)) updates (calls w)"
    and "console (snd (bulkUpdateItems srv token boardId updates w)) =
           console w @ failures update_msg updates
             (outcomes (\<lambda>u. updateItem srv token boardId (id' u) (ItemUpdate.data u)) updates (calls w))"
  using assms
    try_each_fst [of "\<lambda>u. updateItem srv token boardId (id' u) (ItemUpdate.data u)" update_msg updates "[]" w]
    try_each_calls [of "\<lambda>u. updateItem srv token boardId (id' u) (ItemUpdate.data u)" update_msg updates "[]" w]
    try_each_console [of "\<lambda>u. updateItem srv token boardId (id' u) (ItemUpdate.data u)" update_msg updates "[]" w]
  by (simp_all add: bulkUpdateItems_def loop_update case_prod_beta)

lemma bulkCreateConnectors_outcomes:
  assumes "length connectors \<le> 20"
  shows "fst (bulkCreateConnectors srv token boardId connectors w) =
           Inr (successes (outcomes (createConnector srv token boardId) connectors (calls w)))"
    and "calls (snd (bulkCreateConnectors srv token boardId connectors w)) =
           calls_after (createConnector srv token boardId) connectors (calls w)"
    and "console (snd (bulkCreateConnectors srv token boardId connectors w)) =
           console w @ failures connector_msg connectors
             (outcomes (createConnector srv token boardId) connectors (calls w))"
  using assms try_each_fst [of "createConnector srv token boardId" connector_msg connectors "[]" w]
    try_each_calls [of "createConnector srv token boardId" connector_msg connectors "[]" w]
    try_each_console [of "createConnector srv token boardId" connector_msg connectors "[]" w]
  by (simp_all add: bulkCreateConnectors_def loop_connectors case_prod_beta)

lemma bulkDeleteItems_outcomes:
  assumes "length itemIds \<le> 20"
  shows "fst (bulkDeleteItems srv token boardId itemIds w) = Inr ()"
    and "calls (snd (bulkDeleteItems srv token boardId itemIds w)) =
           calls_after (deleteItem srv token boardId) itemIds (calls w)"
    and "console (snd (bulkDeleteItems srv token boardId itemIds w)) =
           console w @ failures delete_msg itemIds (outcomes (deleteItem srv token boardId) itemIds (calls w))"
  using assms try_each_calls [of "deleteItem srv token boardId" delete_msg itemIds "[]" w]
    try_each_console [of "deleteItem srv token boardId" delete_msg itemIds "[]" w]
  by (simp_all add: bulkDeleteItems_def loop_delete [where acc = "[]"])


section \<open>Batch size limit and the empty batch\<close>

text \<open>
  C1. A batch of more than 20 elements: each of the four bulk operations fails with its
  fixed size-limit error and leaves the world as it was, so no request is issued and nothing
  is logged; no prefix of the batch is processed.
\<close>

theorem oversized_batch_rejected:
  "(20 < length items \<longrightarrow>
      bulkCreateItems srv token boardId items w =
        (Inl (Error ''Cannot create more than 20 items in a single bulk operation''), w))
   \<and> (20 < length updates \<longrightarrow>
      bulkUpdateItems srv token boardId updates w =
        (Inl (Error ''Cannot update more than 20 items in a single bulk operation''), w))
   \<and> (20 < length itemIds \<longrightarrow>
      bulkDeleteItems srv token boardId itemIds w =
        (Inl (Error ''Cannot delete more than 20 items in a single bulk operation''), w))
   \<and> (20 < length connectors \<longrightarrow>
      bulkCreateConnectors srv token boardId connectors w =
        (Inl (Error ''Cannot create more than 20 connectors at once''), w))"
  by (simp add: bulkCreateItems_def bulkUpdateItems_def bulkDeleteItems_def bulkCreateConnectors_def)

theorem oversized_batch_rejected_witness:
  "20 < length (replicate 21 (sticky ''A''))
   \<and> 20 < length (replicate 21 (change ''1''))
   \<and> 20 < length (replicate 21 ''1'')
   \<and> 20 < length (replicate 21 (link ''1'' ''2''))
   \<and> bulkCreateItems echo_remote ''tok'' ''b1'' (replicate 21 (sticky ''A'')) empty_world =
        (Inl (Error ''Cannot create more than 20 items in a single bulk operation''), empty_world)
   \<and> bulkUpdateItems echo_remote ''tok'' ''b1'' (replicate 21 (change ''1'')) empty_world =
        (Inl (Error ''Cannot update more than 20 items in a single bulk operation''), empty_world)
   \<and> bulkDeleteItems echo_remote ''tok'' ''b1'' (replicate 21 ''1'') empty_world =
        (Inl (Error ''Cannot delete more than 20 items in a single bulk operation''), empty_world)
   \<and> bulkCreateConnectors echo_remote ''tok'' ''b1'' (replicate 21 (link ''1'' ''2'')) empty_world =
        (Inl (Error ''Cannot create more than 20 connectors at once''), empty_world)"
  using oversized_batch_rejected [where items = "replicate 21 (sticky ''A'')" and srv = echo_remote
      and token = "''tok''" and boardId = "''b1''" and w = empty_world
      and updates = "replicate 21 (change ''1'')" and itemIds = "replicate 21 ''1''"
      and connectors = "replicate 21 (link ''1'' ''2'')"]
  by simp

text \<open>
  C4. The empty batch: every bulk operation returns the empty result (nothing, for the
  delete) and leaves the world as it was, so no request is issued.
\<close>

theorem empty_batch:
  "bulkCreateItems srv token boardId [] w = (Inr [], w)
   \<and> bulkUpdateItems srv token boardId [] w = (Inr [], w)
   \<and> bulkDeleteItems srv token boardId [] w = (Inr (), w)
   \<and> bulkCreateConnectors srv token boardId [] w = (Inr [], w)"
  by (simp add: bulkCreateItems_def bulkUpdateItems_def bulkDeleteItems_def bulkCreateConnectors_def)


section \<open>Failure isolation and order\<close>

lemma outcomes_len: "outcomes f xs cs = rs \<Longrightarrow> length rs = length xs"
  using length_outcomes [of f xs cs] by simp

lemma length_calls_after:
  assumes "\<And>x cs. length (snd (f x cs)) = Suc (length cs)"
  shows "length (calls_after f xs cs) = length cs + length xs"
  by (induction xs arbitrary: cs) (simp_all add: assms)

lemma deleteItem_one_request: "length (snd (deleteItem srv token boardId itemId cs)) = Suc (length cs)"
proof (cases "fetchApi srv token (''/boards/'' @ boardId @ ''/items/'' @ itemId) (method_only ''DELETE'') cs")
  case (Pair res cs1)
  then have "cs1 = cs @ [build_request token (''/boards/'' @ boardId @ ''/items/'' @ itemId) (method_only ''DELETE'')]"
    using fetchApi_log [of srv token "''/boards/'' @ boardId @ ''/items/'' @ itemId" "method_only ''DELETE''" cs]
    by simp
  then show ?thesis
    using Pair by (cases res) (simp_all add: deleteItem_def return_void_def await_def resolve_def)
qed

lemma createConnector_one_request:
  "length (snd (createConnector srv token boardId connector cs)) = Suc (length cs)"
  by (simp add: createConnector_def Let_def fetchApi_log)

text \<open>
  C2. A batch within the limit in which exactly one element's client call fails (with any
  error \<open>e\<close>) and the calls of the elements before and after it succeed: the operation does
  not fail, its result list is the values of the succeeding elements in input order, one
  shorter than the input, with nothing in the place of the failed one. The calls of all
  elements have been issued (the log is the one that running every element's call in turn
  leaves, one request per element for connectors and deletes), and the console has the one
  line of the failed element. The delete has no result list: it returns nothing, having
  issued the call of every element. For \<^verbatim>\<open>bulkCreateItems\<close> the element's call is the body of
  the \<^verbatim>\<open>try\<close> block, so a failure may also be one that precedes the request.
\<close>

theorem one_failure_is_dropped:
  "(length items \<le> 20
      \<and> outcomes (bulkCreateItems_try srv token boardId) items (calls w)
          = map Inr preC @ Inl eC # map Inr postC \<longrightarrow>
        fst (bulkCreateItems srv token boardId items w) = Inr (preC @ postC)
        \<and> length (preC @ postC) = length items - 1
        \<and> calls (snd (bulkCreateItems srv token boardId items w))
            = calls_after (bulkCreateItems_try srv token boardId) items (calls w)
        \<and> console (snd (bulkCreateItems srv token boardId items w))
            = console w @ [(create_msg (items ! length preC), eC)])
   \<and> (length updates \<le> 20
      \<and> outcomes (\<lambda>u. updateItem srv token boardId (id' u) (ItemUpdate.data u)) updates (calls w)
          = map Inr preU @ Inl eU # map Inr postU \<longrightarrow>
        fst (bulkUpdateItems srv token boardId updates w) = Inr (preU @ postU)
        \<and> length (preU @ postU) = length updates - 1
        \<and> calls (snd (bulkUpdateItems srv token boardId updates w))
            = calls_after (\<lambda>u. updateItem srv token boardId (id' u) (ItemUpdate.data u)) updates (calls w)
        \<and> console (snd (bulkUpdateItems srv token boardId updates w))
            = console w @ [(update_msg (updates ! length preU), eU)])
   \<and> (length connectors \<le> 20
      \<and> outcomes (createConnector srv token boardId) connectors (calls w)
          = map Inr preK @ Inl eK # map Inr postK \<longrightarrow>
        fst (bulkCreateConnectors srv token boardId connectors w) = Inr (preK @ postK)
        \<and> length (preK @ postK) = length connectors - 1
        \<and> calls (snd (bulkCreateConnectors srv token boardId connectors w))
            = calls_after (createConnector srv token boardId) connectors (calls w)
        \<and> length (calls (snd (bulkCreateConnectors srv token boardId connectors w)))
            = length (calls w) + length connectors
        \<and> console (snd (bulkCreateConnectors srv token boardId connectors w))
            = console w @ [(connector_msg (connectors ! length preK), eK)])
   \<and> (length itemIds \<le> 20
      \<and> outcomes (deleteItem srv token boardId) itemIds (calls w)
          = map Inr preD @ Inl eD # map Inr postD \<longrightarrow>
        fst (bulkDeleteItems srv token boardId itemIds w) = Inr ()
        \<and> calls (snd (bulkDeleteItems srv token boardId itemIds w))
            = calls_after (deleteItem srv token boardId) itemIds (calls w)
        \<and> length (calls (snd (bulkDeleteItems srv token boardId itemIds w)))
            = length (calls w) + length itemIds
        \<and> console (snd (bulkDeleteItems srv token boardId itemIds w))
            = console w @ [(delete_msg (itemIds ! length preD), eD)])"
proof (intro conjI impI; elim conjE)
  assume "length items \<le> 20"
    and o: "outcomes (bulkCreateItems_try srv token boardId) items (calls w) = map Inr preC @ Inl eC # map Inr postC"
  then show "fst (bulkCreateItems srv token boardId items w) = Inr (preC @ postC)"
    and "calls (snd (bulkCreateItems srv token boardId items w))
           = calls_after (bulkCreateItems_try srv token boardId) items (calls w)"
    and "console (snd (bulkCreateItems srv token boardId items w))
           = console w @ [(create_msg (items ! length preC), eC)]"
    using outcomes_len [OF o]
    by (simp_all add: bulkCreateItems_outcomes successes_one_failure failures_one)
  show "length (preC @ postC) = length items - 1"
    using outcomes_len [OF o] by simp
next
  assume "length updates \<le> 20"
    and o: "outcomes (\<lambda>u. updateItem srv token boardId (id' u) (ItemUpdate.data u)) updates (calls w)
              = map Inr preU @ Inl eU # map Inr postU"
  then show "fst (bulkUpdateItems srv token boardId updates w) = Inr (preU @ postU)"
    and "calls (snd (bulkUpdateItems srv token boardId updates w))
           = calls_after (\<lambda>u. updateItem srv token boardId (id' u) (ItemUpdate.data u)) updates (calls w)"
    and "console (snd (bulkUpdateItems srv token boardId updates w))
           = console w @ [(update_msg (updates ! length preU), eU)]"
    using outcomes_len [OF o]
    by (simp_all add: bulkUpdateItems_outcomes successes_one_failure failures_one)
  show "length (preU @ postU) = length updates - 1"
    using outcomes_len [OF o] by simp
next
  assume "length connectors \<le> 20"
    and o: "outcomes (createConnector srv token boardId) connectors (calls w)
              = map Inr preK @ Inl eK # map Inr postK"
  then show "fst (bulkCreateConnectors srv token boardId connectors w) = Inr (preK @ postK)"
    and "calls (snd (bulkCreateConnectors srv token boardId connectors w))
           = calls_after (createConnector srv token boardId) connectors (calls w)"
    and "console (snd (bulkCreateConnectors srv token boardId connectors w))
           = console w @ [(connector_msg (connectors ! length preK), eK)]"
    using outcomes_len [OF o]
    by (simp_all add: bulkCreateConnectors_outcomes successes_one_failure failures_one)
  show "length (preK @ postK) = length connectors - 1"
    using outcomes_len [OF o] by simp
  show "length (calls (snd (bulkCreateConnectors srv token boardId connectors w)))
          = length (calls w) + length connectors"
    using \<open>length connectors \<le> 20\<close>
    by (simp add: bulkCreateConnectors_outcomes length_calls_after createConnector_one_request)
next
  assume "length itemIds \<le> 20"
    and o: "outcomes (deleteItem srv token boardId) itemIds (calls w)
              = map Inr preD @ Inl eD # map Inr postD"
  then show "fst (bulkDeleteItems srv token boardId itemIds w) = Inr ()"
    and "calls (snd (bulkDeleteItems srv token boardId itemIds w))
           = calls_after (deleteItem srv token boardId) itemIds (calls w)"
    and "console (snd (bulkDeleteItems srv token boardId itemIds w))
           = console w @ [(delete_msg (itemIds ! length preD), eD)]"
    using outcomes_len [OF o]
    by (simp_all add: bulkDeleteItems_outcomes failures_one)
  show "length (calls (snd (bulkDeleteItems srv token boardId itemIds w)))
          = length (calls w) + length itemIds"
    using \<open>length itemIds \<le> 20\<close>
    by (simp add: bulkDeleteItems_outcomes length_calls_after deleteItem_one_request)
qed


theorem one_failure_is_dropped_witness:
  "fst (bulkCreateItems second_fails ''tok'' ''b1'' [sticky ''A'', sticky ''B'', sticky ''C''] empty_world)
     = Inr [sticky_item ''A'', sticky_item ''C'']
   \<and> console (snd (bulkCreateItems second_fails ''tok'' ''b1'' [sticky ''A'', sticky ''B'', sticky ''C''] empty_world))
     = [(create_msg (sticky ''B''), boom)]
   \<and> fst (bulkUpdateItems second_fails ''tok'' ''b1'' [change ''1'', change ''2''] empty_world)
     = Inr [changed_item]
   \<and> fst (bulkCreateConnectors second_fails ''tok'' ''b1'' [link ''1'' ''2'', link ''2'' ''3''] empty_world)
     = Inr [link_item ''1'' ''2'']
   \<and> fst (bulkDeleteItems second_fails ''tok'' ''b1'' [''1'', ''2'', ''3''] empty_world) = Inr ()
   \<and> length (calls (snd (bulkDeleteItems second_fails ''tok'' ''b1'' [''1'', ''2'', ''3''] empty_world))) = 3
   \<and> console (snd (bulkDeleteItems second_fails ''tok'' ''b1'' [''1'', ''2'', ''3''] empty_world))
     = [(delete_msg ''2'', boom)]"
proof -
  have c: "outcomes (bulkCreateItems_try second_fails ''tok'' ''b1'')
             [sticky ''A'', sticky ''B'', sticky ''C''] (calls empty_world)
           = map Inr [sticky_item ''A''] @ Inl boom # map Inr [sticky_item ''C'']"
    by code_simp
  have u: "outcomes (\<lambda>u. updateItem second_fails ''tok'' ''b1'' (id' u) (ItemUpdate.data u))
             [change ''1'', change ''2''] (calls empty_world)
           = map Inr [] @ Inl boom # map Inr [changed_item]"
    by code_simp
  have k: "outcomes (createConnector second_fails ''tok'' ''b1'')
             [link ''1'' ''2'', link ''2'' ''3''] (calls empty_world)
           = map Inr [link_item ''1'' ''2''] @ Inl boom # map Inr []"
    by code_simp
  have d: "outcomes (deleteItem second_fails ''tok'' ''b1'') [''1'', ''2'', ''3''] (calls empty_world)
           = map Inr [()] @ Inl boom # map Inr [()]"
    by code_simp
  show ?thesis
    using c u k d
      one_failure_is_dropped [where srv = second_fails and token = "''tok''" and boardId = "''b1''"
        and w = empty_world
        and items = "[sticky ''A'', sticky ''B'', sticky ''C'']"
        and preC = "[sticky_item ''A'']" and eC = boom and postC = "[sticky_item ''C'']"
        and updates = "[change ''1'', change ''2'']"
        and preU = "[]" and eU = boom and postU = "[changed_item]"
        and connectors = "[link ''1'' ''2'', link ''2'' ''3'']"
        and preK = "[link_item ''1'' ''2'']" and eK = boom and postK = "[]"
        and itemIds = "[''1'', ''2'', ''3'']"
        and preD = "[()]" and eD = boom and postD = "[()]"]
    by (simp add: empty_world_def numeral_3_eq_3 deleteItem_one_request)
qed

text \<open>
  C3. A batch within the limit in which every element's client call succeeds: the result
  list is the list of the values the calls returned, element by element in input order,
  as long as the input; nothing is logged. (The delete returns no list.)
\<close>

theorem all_succeed_same_length_same_order:
  "(length items \<le> 20
      \<and> outcomes (bulkCreateItems_try srv token boardId) items (calls w) = map Inr vsC \<longrightarrow>
        fst (bulkCreateItems srv token boardId items w) = Inr vsC
        \<and> length vsC = length items
        \<and> console (snd (bulkCreateItems srv token boardId items w)) = console w)
   \<and> (length updates \<le> 20
      \<and> outcomes (\<lambda>u. updateItem srv token boardId (id' u) (ItemUpdate.data u)) updates (calls w)
          = map Inr vsU \<longrightarrow>
        fst (bulkUpdateItems srv token boardId updates w) = Inr vsU
        \<and> length vsU = length updates
        \<and> console (snd (bulkUpdateItems srv token boardId updates w)) = console w)
   \<and> (length connectors \<le> 20
      \<and> outcomes (createConnector srv token boardId) connectors (calls w) = map Inr vsK \<longrightarrow>
        fst (bulkCreateConnectors srv token boardId connectors w) = Inr vsK
        \<and> length vsK = length connectors
        \<and> console (snd (bulkCreateConnectors srv token boardId connectors w)) = console w)"
proof (intro conjI impI; elim conjE)
  assume "length items \<le> 20"
    and o: "outcomes (bulkCreateItems_try srv token boardId) items (calls w) = map Inr vsC"
  then show "fst (bulkCreateItems srv token boardId items w) = Inr vsC"
    and "console (snd (bulkCreateItems srv token boardId items w)) = console w"
    using outcomes_len [OF o]
    by (simp_all add: bulkCreateItems_outcomes successes_all failures_none)
  show "length vsC = length items"
    using outcomes_len [OF o] by simp
next
  assume "length updates \<le> 20"
    and o: "outcomes (\<lambda>u. updateItem srv token boardId (id' u) (ItemUpdate.data u)) updates (calls w)
              = map Inr vsU"
  then show "fst (bulkUpdateItems srv token boardId updates w) = Inr vsU"
    and "console (snd (bulkUpdateItems srv token boardId updates w)) = console w"
    using outcomes_len [OF o]
    by (simp_all add: bulkUpdateItems_outcomes successes_all failures_none)
  show "length vsU = length updates"
    using outcomes_len [OF o] by simp
next
  assume "length connectors \<le> 20"
    and o: "outcomes (createConnector srv token boardId) connectors (calls w) = map Inr vsK"
  then show "fst (bulkCreateConnectors srv token boardId connectors w) = Inr vsK"
    and "console (snd (bulkCreateConnectors srv token boardId connectors w)) = console w"
    using outcomes_len [OF o]
    by (simp_all add: bulkCreateConnectors_outcomes successes_all failures_none)
  show "length vsK = length connectors"
    using outcomes_len [OF o] by simp
qed

theorem all_succeed_same_length_same_order_witness:
  "fst (bulkCreateItems echo_remote ''tok'' ''b1'' [sticky ''A'', sticky ''B''] empty_world)
     = Inr [sticky_item ''A'', sticky_item ''B'']
   \<and> fst (bulkUpdateItems echo_remote ''tok'' ''b1'' [change ''1'', change ''2''] empty_world)
     = Inr [changed_item, changed_item]
   \<and> fst (bulkCreateConnectors echo_remote ''tok'' ''b1'' [link ''1'' ''2'', link ''2'' ''3''] empty_world)
     = Inr [link_item ''1'' ''2'', link_item ''2'' ''3'']"
proof -
  have c: "outcomes (bulkCreateItems_try echo_remote ''tok'' ''b1'')
             [sticky ''A'', sticky ''B''] (calls empty_world)
           = map Inr [sticky_item ''A'', sticky_item ''B'']"
    by code_simp
  have u: "outcomes (\<lambda>u. updateItem echo_remote ''tok'' ''b1'' (id' u) (ItemUpdate.data u))
             [change ''1'', change ''2''] (calls empty_world)
           = map Inr [changed_item, changed_item]"
    by code_simp
  have k: "outcomes (createConnector echo_remote ''tok'' ''b1'')
             [link ''1'' ''2'', link ''2'' ''3''] (calls empty_world)
           = map Inr [link_item ''1'' ''2'', link_item ''2'' ''3'']"
    by code_simp
  show ?thesis
    using c u k
      all_succeed_same_length_same_order [where srv = echo_remote and token = "''tok''"
        and boardId = "''b1''" and w = empty_world
        and items = "[sticky ''A'', sticky ''B'']"
        and vsC = "[sticky_item ''A'', sticky_item ''B'']"
        and updates = "[change ''1'', change ''2'']"
        and vsU = "[changed_item, changed_item]"
        and connectors = "[link ''1'' ''2'', link ''2'' ''3'']"
        and vsK = "[link_item ''1'' ''2'', link_item ''2'' ''3'']"]
    by simp
qed

lemma unsupported_try:
  "unsupported item \<Longrightarrow>
   bulkCreateItems_try srv token boardId item cs = (Inl (Error (''Unsupported item type: '' @ type item)), cs)"
  by (auto simp: unsupported_def bulkCreateItems_try_def throw_def)

lemma successes_skip:
  assumes "\<And>x cs. \<not> P x \<Longrightarrow> \<exists>e. f x cs = (Inl e, cs)"
  shows "successes (outcomes f xs cs) = successes (outcomes f (filter P xs) cs)"
proof (induction xs arbitrary: cs)
  case Nil
  show ?case by simp
next
  case (Cons x xs)
  show ?case
  proof (cases "P x")
    case True
    then show ?thesis using Cons.IH by (cases "fst (f x cs)") simp_all
  next
    case False
    then obtain e where "f x cs = (Inl e, cs)" using assms by blast
    then show ?thesis using False Cons.IH by simp
  qed
qed

lemma calls_after_skip:
  assumes "\<And>x cs. \<not> P x \<Longrightarrow> \<exists>e. f x cs = (Inl e, cs)"
  shows "calls_after f xs cs = calls_after f (filter P xs) cs"
proof (induction xs arbitrary: cs)
  case Nil
  show ?case by simp
next
  case (Cons x xs)
  show ?case
  proof (cases "P x")
    case True
    then show ?thesis using Cons.IH by simp
  next
    case False
    then obtain e where "f x cs = (Inl e, cs)" using assms by blast
    then show ?thesis using False Cons.IH by simp
  qed
qed

text \<open>
  C9. An element of type \<^verbatim>\<open>connector\<close> or \<^verbatim>\<open>app_card\<close> reaches the default branch of the
  switch: the element's step throws \<^verbatim>\<open>Unsupported item type\<close> and issues no request. The
  loop catches it: the batch returns the same list and issues the same requests as the
  batch without these elements (no generic creation endpoint is tried), and a batch of such
  elements only returns the empty list, with one console line per element.
\<close>

theorem unsupported_types_dropped_without_call:
  "(unsupported item \<longrightarrow>
      bulkCreateItems_try srv token boardId item cs
        = (Inl (Error (''Unsupported item type: '' @ type item)), cs))
   \<and> (length items \<le> 20 \<longrightarrow>
      fst (bulkCreateItems srv token boardId items w)
        = fst (bulkCreateItems srv token boardId (filter (\<lambda>i. \<not> unsupported i) items) w)
      \<and> calls (snd (bulkCreateItems srv token boardId items w))
        = calls (snd (bulkCreateItems srv token boardId (filter (\<lambda>i. \<not> unsupported i) items) w)))
   \<and> (length dropped \<le> 20 \<and> (\<forall>i \<in> set dropped. unsupported i) \<longrightarrow>
      fst (bulkCreateItems srv token boardId dropped w) = Inr []
      \<and> calls (snd (bulkCreateItems srv token boardId dropped w)) = calls w
      \<and> console (snd (bulkCreateItems srv token boardId dropped w))
        = console w @ map (\<lambda>i. (create_msg i, Error (''Unsupported item type: '' @ type i))) dropped)"
proof (intro conjI impI)
  assume "unsupported item"
  then show "bulkCreateItems_try srv token boardId item cs
        = (Inl (Error (''Unsupported item type: '' @ type item)), cs)"
    by (rule unsupported_try)
next
  assume len: "length items \<le> 20"
  have len': "length (filter (\<lambda>i. \<not> unsupported i) items) \<le> 20"
    using len length_filter_le [of "\<lambda>i. \<not> unsupported i" items] by linarith
  have skip: "\<exists>e. bulkCreateItems_try srv token boardId x cs' = (Inl e, cs')"
    if "\<not> \<not> unsupported x" for x cs'
    using that unsupported_try [of x srv token boardId cs'] by simp
  show "fst (bulkCreateItems srv token boardId items w)
        = fst (bulkCreateItems srv token boardId (filter (\<lambda>i. \<not> unsupported i) items) w)"
    using successes_skip [of "\<lambda>i. \<not> unsupported i" "bulkCreateItems_try srv token boardId", OF skip]
    by (simp add: bulkCreateItems_outcomes len len')
  show "calls (snd (bulkCreateItems srv token boardId items w))
        = calls (snd (bulkCreateItems srv token boardId (filter (\<lambda>i. \<not> unsupported i) items) w))"
    using calls_after_skip [of "\<lambda>i. \<not> unsupported i" "bulkCreateItems_try srv token boardId", OF skip]
    by (simp add: bulkCreateItems_outcomes len len')
next
  assume a: "length dropped \<le> 20 \<and> (\<forall>i \<in> set dropped. unsupported i)"
  then have un: "\<forall>i \<in> set dropped. unsupported i" and len: "length dropped \<le> 20"
    by simp_all
  have o: "outcomes (bulkCreateItems_try srv token boardId) dropped cs'
           = map (\<lambda>i. Inl (Error (''Unsupported item type: '' @ type i))) dropped" for cs'
    using un by (induction dropped arbitrary: cs') (simp_all add: unsupported_try)
  have c: "calls_after (bulkCreateItems_try srv token boardId) dropped cs' = cs'" for cs'
    using un by (induction dropped arbitrary: cs') (simp_all add: unsupported_try)
  have s: "successes (map (\<lambda>i. Inl (g i)) xs) = ([] :: json list)" for g :: "CreateItemData \<Rightarrow> error" and xs
    by (induction xs) simp_all
  have f: "failures msg xs (map (\<lambda>i. Inl (g i)) xs) = map (\<lambda>i. (msg i, g i)) xs"
    for g :: "CreateItemData \<Rightarrow> error" and xs msg
    by (induction xs) simp_all
  show "fst (bulkCreateItems srv token boardId dropped w) = Inr []"
    and "calls (snd (bulkCreateItems srv token boardId dropped w)) = calls w"
    and "console (snd (bulkCreateItems srv token boardId dropped w))
        = console w @ map (\<lambda>i. (create_msg i, Error (''Unsupported item type: '' @ type i))) dropped"
    by (simp_all add: bulkCreateItems_outcomes len o c s f)
qed

theorem unsupported_types_dropped_without_call_witness:
  "unsupported (of_type ''connector'') \<and> unsupported (of_type ''app_card'')
   \<and> bulkCreateItems_try echo_remote ''tok'' ''b1'' (of_type ''connector'') []
        = (Inl (Error ''Unsupported item type: connector''), [])
   \<and> fst (bulkCreateItems echo_remote ''tok'' ''b1'' [of_type ''connector'', sticky ''A'', of_type ''app_card''] empty_world)
        = fst (bulkCreateItems echo_remote ''tok'' ''b1'' [sticky ''A''] empty_world)
   \<and> bulkCreateItems echo_remote ''tok'' ''b1'' [of_type ''connector'', of_type ''app_card''] empty_world
        = (Inr [],
           \<lparr>calls = [],
            console = [(''Failed to create item of type connector:'', Error ''Unsupported item type: connector''),
                       (''Failed to create item of type app_card:'', Error ''Unsupported item type: app_card'')]\<rparr>)"
proof -
  have u: "unsupported (of_type ''connector'')" "unsupported (of_type ''app_card'')"
    "\<not> unsupported (sticky ''A'')"
    by (simp_all add: unsupported_def of_type_def sticky_def)
  have "world.more (snd (bulkCreateItems echo_remote ''tok'' ''b1'' [of_type ''connector'', of_type ''app_card''] empty_world)) = ()"
    by simp
  then show ?thesis
    using u unsupported_types_dropped_without_call [where srv = echo_remote and token = "''tok''"
        and boardId = "''b1''" and w = empty_world and cs = "[]"
        and item = "of_type ''connector''"
        and items = "[of_type ''connector'', sticky ''A'', of_type ''app_card'']"
        and dropped = "[of_type ''connector'', of_type ''app_card'']"]
    by (auto simp: empty_world_def create_msg_def of_type_def prod_eq_iff intro!: world.equality)
qed


section \<open>Responses\<close>

lemmas method_defs = getBoard_def createBoard_def updateBoard_def copyBoard_def getItem_def createStickyNote_def updateStickyNote_def createShape_def updateShape_def createText_def updateText_def createCard_def updateCard_def createConnector_def updateConnector_def createFrame_def updateFrame_def createImage_def updateImage_def createDocument_def updateDocument_def createEmbed_def updateEmbed_def createTag_def updateTag_def createGroup_def updateGroup_def shareBoardWithUser_def updateBoardMember_def createWebhook_def updateWebhook_def getBoards_def getBoardItems_def getFrames_def getItemsInFrame_def getTags_def getBoardMembers_def getWebhooks_def searchItems_def deleteBoard_def deleteItem_def deleteTag_def attachTagToItem_def removeTagFromItem_def deleteGroup_def removeBoardMember_def deleteWebhook_def updateItem_def

lemma propagates_fetchApi:
  assumes "\<forall>q. \<exists>r. srv cs q = Inr r \<and> \<not> ok r"
  shows "propagates_api_error srv cs (fetchApi srv token path opts)"
proof -
  obtain r where r: "srv cs (build_request token path opts) = Inr r" "\<not> ok r"
    using assms by blast
  then show ?thesis
    unfolding propagates_api_error_def
    by (intro exI [of _ "build_request token path opts"] exI [of _ r])
      (simp add: fetchApi_answered interpret_response_def)
qed

lemma propagates_await:
  "propagates_api_error srv cs m \<Longrightarrow> propagates_api_error srv cs (await m k)"
  unfolding propagates_api_error_def await_def by auto

text \<open>
  C7. A response outside the 2xx range makes \<^verbatim>\<open>fetchApi\<close> throw an error whose message is made
  of the status code in decimal, the status text and the raw body text. Every single
  (non-batch) operation hands this error to its caller as it is: when the remote answers the
  operation's request with such a response, the operation's outcome is that error, after that
  one request; for \<^verbatim>\<open>updateItem\<close> this holds for its read and, when the read succeeded, for
  its write.
\<close>

theorem non_2xx_raises_api_error:
  "(srv cs (build_request token path opts) = Inr r \<and> \<not> ok r \<longrightarrow>
      fetchApi srv token path opts cs =
        (Inl (Error (''Miro API error: '' @ show_nat (status r) @ '' '' @ statusText r @ '' - '' @ bodyText r)),
         cs @ [build_request token path opts]))
   \<and> ((\<forall>q. \<exists>r. srv cs q = Inr r \<and> \<not> ok r) \<longrightarrow>
      propagates_api_error srv cs (getBoard srv token boardId)
      \<and> propagates_api_error srv cs (createBoard srv token props)
      \<and> propagates_api_error srv cs (updateBoard srv token boardId props)
      \<and> propagates_api_error srv cs (copyBoard srv token boardId props)
      \<and> propagates_api_error srv cs (getItem srv token boardId itemId)
      \<and> propagates_api_error srv cs (createStickyNote srv token boardId props)
      \<and> propagates_api_error srv cs (updateStickyNote srv token boardId itemId payload)
      \<and> propagates_api_error srv cs (createShape srv token boardId props)
      \<and> propagates_api_error srv cs (updateShape srv token boardId itemId payload)
      \<and> propagates_api_error srv cs (createText srv token boardId props)
      \<and> propagates_api_error srv cs (updateText srv token boardId itemId payload)
      \<and> propagates_api_error srv cs (createCard srv token boardId props)
      \<and> propagates_api_error srv cs (updateCard srv token boardId itemId payload)
      \<and> propagates_api_error srv cs (createConnector srv token boardId connector)
      \<and> propagates_api_error srv cs (updateConnector srv token boardId itemId payload)
      \<and> propagates_api_error srv cs (createFrame srv token boardId props)
      \<and> propagates_api_error srv cs (updateFrame srv token boardId itemId payload)
      \<and> propagates_api_error srv cs (createImage srv token boardId props)
      \<and> propagates_api_error srv cs (updateImage srv token boardId itemId payload)
      \<and> propagates_api_error srv cs (createDocument srv token boardId props)
      \<and> propagates_api_error srv cs (updateDocument srv token boardId itemId payload)
      \<and> propagates_api_error srv cs (createEmbed srv token boardId props)
      \<and> propagates_api_error srv cs (updateEmbed srv token boardId itemId payload)
      \<and> propagates_api_error srv cs (createTag srv token boardId props)
      \<and> propagates_api_error srv cs (updateTag srv token boardId tagId props)
      \<and> propagates_api_error srv cs (createGroup srv token boardId props)
      \<and> propagates_api_error srv cs (updateGroup srv token boardId groupId payload)
      \<and> propagates_api_error srv cs (shareBoardWithUser srv token boardId props)
      \<and> propagates_api_error srv cs (updateBoardMember srv token boardId memberId props)
      \<and> propagates_api_error srv cs (createWebhook srv token props)
      \<and> propagates_api_error srv cs (updateWebhook srv token webhookId props)
      \<and> propagates_api_error srv cs (getBoards srv token query' teamId)
      \<and> propagates_api_error srv cs (getBoardItems srv token boardId type' parentItemId cursor limit)
      \<and> propagates_api_error srv cs (getFrames srv token boardId)
      \<and> propagates_api_error srv cs (getItemsInFrame srv token boardId frameId)
      \<and> propagates_api_error srv cs (getTags srv token boardId)
      \<and> propagates_api_error srv cs (getBoardMembers srv token boardId)
      \<and> propagates_api_error srv cs (getWebhooks srv token)
      \<and> propagates_api_error srv cs (searchItems srv token boardId searchText)
      \<and> propagates_api_error srv cs (deleteBoard srv token boardId)
      \<and> propagates_api_error srv cs (deleteItem srv token boardId itemId)
      \<and> propagates_api_error srv cs (deleteTag srv token boardId tagId)
      \<and> propagates_api_error srv cs (attachTagToItem srv token boardId itemId tagId)
      \<and> propagates_api_error srv cs (removeTagFromItem srv token boardId itemId tagId)
      \<and> propagates_api_error srv cs (deleteGroup srv token boardId groupId)
      \<and> propagates_api_error srv cs (removeBoardMember srv token boardId memberId)
      \<and> propagates_api_error srv cs (deleteWebhook srv token webhookId)
      \<and> propagates_api_error srv cs (updateItem srv token boardId itemId payload))
   \<and> (getItem srv' token boardId itemId cs' = (Inr item, cs'') \<and> get_prop item ''type'' = Inr t
      \<and> srv' cs'' (build_request token (updateItem_endpoint boardId itemId t) (method_body ''PATCH'' payload)) = Inr r'
      \<and> \<not> ok r' \<longrightarrow>
      updateItem srv' token boardId itemId payload cs' =
        (Inl (api_error r'),
         cs'' @ [build_request token (updateItem_endpoint boardId itemId t) (method_body ''PATCH'' payload)]))"
proof (intro conjI impI)
  assume "srv cs (build_request token path opts) = Inr r \<and> \<not> ok r"
  then show "fetchApi srv token path opts cs =
        (Inl (Error (''Miro API error: '' @ show_nat (status r) @ '' '' @ statusText r @ '' - '' @ bodyText r)),
         cs @ [build_request token path opts])"
    by (simp add: fetchApi_answered interpret_response_def api_error_def)
next
  assume "getItem srv' token boardId itemId cs' = (Inr item, cs'') \<and> get_prop item ''type'' = Inr t
      \<and> srv' cs'' (build_request token (updateItem_endpoint boardId itemId t) (method_body ''PATCH'' payload)) = Inr r'
      \<and> \<not> ok r'"
  then show "updateItem srv' token boardId itemId payload cs' =
        (Inl (api_error r'),
         cs'' @ [build_request token (updateItem_endpoint boardId itemId t) (method_body ''PATCH'' payload)])"
    by (simp add: updateItem_def await_def sync_def fetchApi_answered interpret_response_def)
qed (simp_all add: method_defs Let_def return_data_def return_void_def propagates_await propagates_fetchApi)

theorem non_2xx_raises_api_error_witness:
  "(\<forall>q. \<exists>r. always_404 [] q = Inr r \<and> \<not> ok r)
   \<and> fetchApi always_404 ''tok'' ''/boards/b1'' no_options [] =
        (Inl (Error ''Miro API error: 404 Not Found - board not found''),
         [build_request ''tok'' ''/boards/b1'' no_options])
   \<and> propagates_api_error always_404 [] (createStickyNote always_404 ''tok'' ''b1'' [(''content'', JStr ''A'')])
   \<and> propagates_api_error always_404 [] (deleteItem always_404 ''tok'' ''b1'' ''i1'')
   \<and> updateItem shape_board_refusing ''tok'' ''b1'' ''i1'' new_content [] =
        (Inl (Error ''Miro API error: 400 Bad Request - invalid''),
         [build_request ''tok'' ''/boards/b1/items/i1'' no_options,
          build_request ''tok'' ''/boards/b1/shapes/i1'' (method_body ''PATCH'' new_content)])"
proof -
  have a: "\<forall>q. \<exists>r. always_404 [] q = Inr r \<and> \<not> ok r"
    by (simp add: always_404_def not_found_def ok_def)
  have b: "always_404 [] (build_request ''tok'' ''/boards/b1'' no_options) = Inr not_found \<and> \<not> ok not_found"
    by (simp add: always_404_def not_found_def ok_def)
  have c: "getItem shape_board_refusing ''tok'' ''b1'' ''i1'' []
             = (Inr (JObj [(''id'', JStr ''i1''), (''type'', JStr ''shape'')]),
                [build_request ''tok'' ''/boards/b1/items/i1'' no_options])"
    by code_simp
  have d: "get_prop (JObj [(''id'', JStr ''i1''), (''type'', JStr ''shape'')]) ''type'' = Inr (JStr ''shape'')"
    by code_simp
  have e: "shape_board_refusing [build_request ''tok'' ''/boards/b1/items/i1'' no_options]
             (build_request ''tok'' (updateItem_endpoint ''b1'' ''i1'' (JStr ''shape''))
                (method_body ''PATCH'' new_content)) = Inr bad_request \<and> \<not> ok bad_request"
    by code_simp
  have n: "show_nat 404 = ''404''" "show_nat 400 = ''400''"
    by code_simp+
  have p: "updateItem_endpoint ''b1'' ''i1'' (JStr ''shape'') = ''/boards/b1/shapes/i1''"
    by code_simp
  show ?thesis
    using a b c d e
      non_2xx_raises_api_error [where srv = always_404 and cs = "[]" and token = "''tok''"
        and path = "''/boards/b1''" and opts = no_options and r = not_found
        and boardId = "''b1''" and itemId = "''i1''" and props = "[(''content'', JStr ''A'')]"
        and srv' = shape_board_refusing and cs' = "[]"
        and item = "JObj [(''id'', JStr ''i1''), (''type'', JStr ''shape'')]"
        and cs'' = "[build_request ''tok'' ''/boards/b1/items/i1'' no_options]"
        and t = "JStr ''shape''" and payload = new_content and r' = bad_request]
    by (simp add: n p not_found_def bad_request_def api_error_def)
qed

lemma fetchApi_delete_ok:
  assumes "\<forall>q. \<exists>r. srv cs q = Inr r \<and> ok r"
  shows "fetchApi srv token path (method_only ''DELETE'') cs =
           (Inr (JObj []), cs @ [build_request token path (method_only ''DELETE'')])"
proof -
  obtain r where "srv cs (build_request token path (method_only ''DELETE'')) = Inr r" "ok r"
    using assms by blast
  then show ?thesis
    by (simp add: fetchApi_answered interpret_response_def method_only_def)
qed

text \<open>
  C6. A 2xx response with status 204, or to a request made with method \<^verbatim>\<open>DELETE\<close>, makes
  \<^verbatim>\<open>fetchApi\<close> return the empty object, whatever the body is and whether or not it would parse.
  Hence every delete method returns successfully, with nothing, whenever the remote answers
  its request with a 2xx response: a 204, or a 200 with an empty body.
\<close>

theorem delete_and_204_give_empty_success:
  "(srv cs (build_request token path opts) = Inr r \<and> ok r
      \<and> (status r = 204 \<or> method (build_request token path opts) = ''DELETE'') \<longrightarrow>
      fetchApi srv token path opts cs = (Inr (JObj []), cs @ [build_request token path opts]))
   \<and> ((\<forall>q. \<exists>r. srv' cs' q = Inr r \<and> ok r) \<longrightarrow>
      deleteBoard srv' token boardId cs' =
          (Inr (), cs' @ [build_request token (''/boards/'' @ boardId) (method_only ''DELETE'')])
      \<and> deleteItem srv' token boardId itemId cs' =
          (Inr (), cs' @ [build_request token (''/boards/'' @ boardId @ ''/items/'' @ itemId) (method_only ''DELETE'')])
      \<and> deleteTag srv' token boardId tagId cs' =
          (Inr (), cs' @ [build_request token (''/boards/'' @ boardId @ ''/tags/'' @ tagId) (method_only ''DELETE'')])
      \<and> removeTagFromItem srv' token boardId itemId tagId cs' =
          (Inr (), cs' @ [build_request token (''/boards/'' @ boardId @ ''/items/'' @ itemId @ ''/tags/'' @ tagId) (method_only ''DELETE'')])
      \<and> deleteGroup srv' token boardId groupId cs' =
          (Inr (), cs' @ [build_request token (''/boards/'' @ boardId @ ''/groups/'' @ groupId) (method_only ''DELETE'')])
      \<and> removeBoardMember srv' token boardId memberId cs' =
          (Inr (), cs' @ [build_request token (''/boards/'' @ boardId @ ''/members/'' @ memberId) (method_only ''DELETE'')])
      \<and> deleteWebhook srv' token webhookId cs' =
          (Inr (), cs' @ [build_request token (''/webhooks/'' @ webhookId) (method_only ''DELETE'')]))"
proof (intro conjI impI)
  assume a: "srv cs (build_request token path opts) = Inr r \<and> ok r
      \<and> (status r = 204 \<or> method (build_request token path opts) = ''DELETE'')"
  have "opt_method opts = Some ''DELETE''" if "method (build_request token path opts) = ''DELETE''"
    using that by (simp add: build_request_def method_or_GET_def split: option.splits if_splits)
  with a show "fetchApi srv token path opts cs = (Inr (JObj []), cs @ [build_request token path opts])"
    by (auto simp: fetchApi_answered interpret_response_def)
qed (simp_all add: deleteBoard_def deleteItem_def deleteTag_def removeTagFromItem_def deleteGroup_def
      removeBoardMember_def deleteWebhook_def return_void_def await_def resolve_def fetchApi_delete_ok)

theorem delete_and_204_give_empty_success_witness:
  "(\<forall>q. \<exists>r. always_204 [] q = Inr r \<and> ok r) \<and> (\<forall>q. \<exists>r. always_empty_200 [] q = Inr r \<and> ok r)
   \<and> fetchApi always_204 ''tok'' ''/boards/b1'' no_options [] =
        (Inr (JObj []), [build_request ''tok'' ''/boards/b1'' no_options])
   \<and> deleteItem always_204 ''tok'' ''b1'' ''i1'' [] =
        (Inr (), [build_request ''tok'' ''/boards/b1/items/i1'' (method_only ''DELETE'')])
   \<and> deleteItem always_empty_200 ''tok'' ''b1'' ''i1'' [] =
        (Inr (), [build_request ''tok'' ''/boards/b1/items/i1'' (method_only ''DELETE'')])"
proof -
  have a: "\<forall>q. \<exists>r. always_204 [] q = Inr r \<and> ok r"
    by (simp add: always_204_def no_content_def ok_def)
  have b: "\<forall>q. \<exists>r. always_empty_200 [] q = Inr r \<and> ok r"
    by (simp add: always_empty_200_def empty_200_def ok_def)
  have c: "always_204 [] (build_request ''tok'' ''/boards/b1'' no_options) = Inr no_content
           \<and> ok no_content \<and> status no_content = 204"
    by (simp add: always_204_def no_content_def ok_def)
  show ?thesis
    using a b c
      delete_and_204_give_empty_success [where srv = always_204 and cs = "[]" and token = "''tok''"
        and path = "''/boards/b1''" and opts = no_options and r = no_content
        and srv' = always_204 and cs' = "[]" and boardId = "''b1''" and itemId = "''i1''"]
      delete_and_204_give_empty_success [where srv = always_204 and cs = "[]" and token = "''tok''"
        and path = "''/boards/b1''" and opts = no_options and r = no_content
        and srv' = always_empty_200 and cs' = "[]" and boardId = "''b1''" and itemId = "''i1''"]
    by simp
qed

lemma fetchApi_not_json:
  assumes "\<forall>cs q. \<exists>r. srv cs q = Inr r \<and> ok r \<and> not_json r"
  shows "fetchApi srv token path opts cs = (Inr (JObj []), cs @ [build_request token path opts])"
proof -
  obtain r where "srv cs (build_request token path opts) = Inr r" "ok r" "not_json r"
    using assms by blast
  then show ?thesis
    by (auto simp: fetchApi_answered interpret_response_def not_json_def split: option.splits)
qed

lemma outcomes_const:
  assumes "\<And>x cs. fst (f x cs) = Inr v"
  shows "successes (outcomes f xs cs) = replicate (length xs) v"
  by (induction xs arbitrary: cs) (simp_all add: assms)

lemma successes_subset:
  assumes "\<And>x cs u. fst (f x cs) = Inr u \<Longrightarrow> u = v"
  shows "set (successes (outcomes f xs cs)) \<subseteq> {v}"
proof (induction xs arbitrary: cs)
  case Nil
  show ?case by simp
next
  case (Cons x xs)
  show ?case
    using Cons.IH [of "snd (f x cs)"] assms [of x cs]
    by (cases "fst (f x cs)") auto
qed

lemma try_not_json:
  assumes "\<forall>cs q. \<exists>r. srv cs q = Inr r \<and> ok r \<and> not_json r"
    and "fst (bulkCreateItems_try srv token boardId item cs) = Inr u"
  shows "u = JObj []"
  using assms(2)
  by (auto simp: bulkCreateItems_try_def await_def sync_def throw_def get_prop_def Let_def
      createStickyNote_def createText_def createShape_def createCard_def createFrame_def
      createImage_def createDocument_def createEmbed_def fetchApi_not_json [OF assms(1)]
      split: if_splits)

text \<open>
  C10. A 2xx response whose \<^verbatim>\<open>Content-Type\<close> is absent or does not include
  \<^verbatim>\<open>application/json\<close> makes \<^verbatim>\<open>fetchApi\<close> return the empty object, whatever the body is. Against
  a remote that only answers so, no client method fails: the methods that return the response
  return the empty object, those that return its \<^verbatim>\<open>data\<close> return \<^verbatim>\<open>undefined\<close>, the others
  return nothing, and the bulk operations within the limit return lists of empty objects.
\<close>

theorem non_json_success_is_empty:
  "(srv cs (build_request token path opts) = Inr r \<and> ok r \<and> not_json r \<longrightarrow>
      fetchApi srv token path opts cs = (Inr (JObj []), cs @ [build_request token path opts]))
   \<and> ((\<forall>cs q. \<exists>r. srv' cs q = Inr r \<and> ok r \<and> not_json r) \<longrightarrow>
      fst (getBoard srv' token boardId cs') = Inr (JObj [])
      \<and> fst (createBoard srv' token props cs') = Inr (JObj [])
      \<and> fst (updateBoard srv' token boardId props cs') = Inr (JObj [])
      \<and> fst (copyBoard srv' token boardId props cs') = Inr (JObj [])
      \<and> fst (getItem srv' token boardId itemId cs') = Inr (JObj [])
      \<and> fst (createStickyNote srv' token boardId props cs') = Inr (JObj [])
      \<and> fst (updateStickyNote srv' token boardId itemId payload cs') = Inr (JObj [])
      \<and> fst (createShape srv' token boardId props cs') = Inr (JObj [])
      \<and> fst (updateShape srv' token boardId itemId payload cs') = Inr (JObj [])
      \<and> fst (createText srv' token boardId props cs') = Inr (JObj [])
      \<and> fst (updateText srv' token boardId itemId payload cs') = Inr (JObj [])
      \<and> fst (createCard srv' token boardId props cs') = Inr (JObj [])
      \<and> fst (updateCard srv' token boardId itemId payload cs') = Inr (JObj [])
      \<and> fst (createConnector srv' token boardId connector cs') = Inr (JObj [])
      \<and> fst (updateConnector srv' token boardId itemId payload cs') = Inr (JObj [])
      \<and> fst (createFrame srv' token boardId props cs') = Inr (JObj [])
      \<and> fst (updateFrame srv' token boardId itemId payload cs') = Inr (JObj [])
      \<and> fst (createImage srv' token boardId props cs') = Inr (JObj [])
      \<and> fst (updateImage srv' token boardId itemId payload cs') = Inr (JObj [])
      \<and> fst (createDocument srv' token boardId props cs') = Inr (JObj [])
      \<and> fst (updateDocument srv' token boardId itemId payload cs') = Inr (JObj [])
      \<and> fst (createEmbed srv' token boardId props cs') = Inr (JObj [])
      \<and> fst (updateEmbed srv' token boardId itemId payload cs') = Inr (JObj [])
      \<and> fst (createTag srv' token boardId props cs') = Inr (JObj [])
      \<and> fst (updateTag srv' token boardId tagId props cs') = Inr (JObj [])
      \<and> fst (createGroup srv' token boardId props cs') = Inr (JObj [])
      \<and> fst (updateGroup srv' token boardId groupId payload cs') = Inr (JObj [])
      \<and> fst (shareBoardWithUser srv' token boardId props cs') = Inr (JObj [])
      \<and> fst (updateBoardMember srv' token boardId memberId props cs') = Inr (JObj [])
      \<and> fst (createWebhook srv' token props cs') = Inr (JObj [])
      \<and> fst (updateWebhook srv' token webhookId props cs') = Inr (JObj [])
      \<and> fst (updateItem srv' token boardId itemId payload cs') = Inr (JObj [])
      \<and> fst (getBoards srv' token query' teamId cs') = Inr JUndefined
      \<and> fst (getBoardItems srv' token boardId type' parentItemId cursor limit cs') = Inr JUndefined
      \<and> fst (getFrames srv' token boardId cs') = Inr JUndefined
      \<and> fst (getItemsInFrame srv' token boardId frameId cs') = Inr JUndefined
      \<and> fst (getTags srv' token boardId cs') = Inr JUndefined
      \<and> fst (getBoardMembers srv' token boardId cs') = Inr JUndefined
      \<and> fst (getWebhooks srv' token cs') = Inr JUndefined
      \<and> fst (searchItems srv' token boardId searchText cs') = Inr JUndefined
      \<and> fst (deleteBoard srv' token boardId cs') = Inr ()
      \<and> fst (deleteItem srv' token boardId itemId cs') = Inr ()
      \<and> fst (deleteTag srv' token boardId tagId cs') = Inr ()
      \<and> fst (attachTagToItem srv' token boardId itemId tagId cs') = Inr ()
      \<and> fst (removeTagFromItem srv' token boardId itemId tagId cs') = Inr ()
      \<and> fst (deleteGroup srv' token boardId groupId cs') = Inr ()
      \<and> fst (removeBoardMember srv' token boardId memberId cs') = Inr ()
      \<and> fst (deleteWebhook srv' token webhookId cs') = Inr ()
      \<and> (length updates \<le> 20 \<longrightarrow>
           fst (bulkUpdateItems srv' token boardId updates w) = Inr (replicate (length updates) (JObj [])))
      \<and> (length connectors \<le> 20 \<longrightarrow>
           fst (bulkCreateConnectors srv' token boardId connectors w)
             = Inr (replicate (length connectors) (JObj [])))
      \<and> (length itemIds \<le> 20 \<longrightarrow> fst (bulkDeleteItems srv' token boardId itemIds w) = Inr ())
      \<and> (length items \<le> 20 \<longrightarrow>
           (\<exists>vs. fst (bulkCreateItems srv' token boardId items w) = Inr vs \<and> set vs \<subseteq> {JObj []})))"
proof (intro conjI impI)
  assume "srv cs (build_request token path opts) = Inr r \<and> ok r \<and> not_json r"
  then show "fetchApi srv token path opts cs = (Inr (JObj []), cs @ [build_request token path opts])"
    by (auto simp: fetchApi_answered interpret_response_def not_json_def split: option.splits)
next
  assume h: "\<forall>cs q. \<exists>r. srv' cs q = Inr r \<and> ok r \<and> not_json r" and "length updates \<le> 20"
  then show "fst (bulkUpdateItems srv' token boardId updates w) = Inr (replicate (length updates) (JObj []))"
    by (simp add: bulkUpdateItems_outcomes outcomes_const updateItem_def getItem_def await_def sync_def
        get_prop_def nullish_def fetchApi_not_json)
next
  assume h: "\<forall>cs q. \<exists>r. srv' cs q = Inr r \<and> ok r \<and> not_json r" and "length connectors \<le> 20"
  then show "fst (bulkCreateConnectors srv' token boardId connectors w)
             = Inr (replicate (length connectors) (JObj []))"
    by (simp add: bulkCreateConnectors_outcomes outcomes_const createConnector_def Let_def fetchApi_not_json)
next
  assume "length itemIds \<le> 20"
  then show "fst (bulkDeleteItems srv' token boardId itemIds w) = Inr ()"
    by (simp add: bulkDeleteItems_outcomes)
next
  assume h: "\<forall>cs q. \<exists>r. srv' cs q = Inr r \<and> ok r \<and> not_json r" and "length items \<le> 20"
  then show "\<exists>vs. fst (bulkCreateItems srv' token boardId items w) = Inr vs \<and> set vs \<subseteq> {JObj []}"
    using successes_subset [of "bulkCreateItems_try srv' token boardId" "JObj []" items "calls w",
        OF try_not_json [OF h]]
    by (simp add: bulkCreateItems_outcomes)
qed (simp_all add: method_defs Let_def return_data_def return_void_def await_def sync_def resolve_def
      get_prop_def nullish_def lookup_def updateItem_endpoint_def fetchApi_not_json)

theorem non_json_success_is_empty_witness:
  "(\<forall>cs q. \<exists>r. always_html cs q = Inr r \<and> ok r \<and> not_json r)
   \<and> fetchApi always_html ''tok'' ''/boards/b1'' no_options [] =
        (Inr (JObj []), [build_request ''tok'' ''/boards/b1'' no_options])
   \<and> fst (getBoards always_html ''tok'' None None []) = Inr JUndefined
   \<and> fst (updateItem always_html ''tok'' ''b1'' ''i1'' new_content []) = Inr (JObj [])
   \<and> fst (bulkUpdateItems always_html ''tok'' ''b1'' [change ''1'', change ''2''] empty_world)
        = Inr [JObj [], JObj []]
   \<and> fst (bulkCreateConnectors always_html ''tok'' ''b1'' [link ''1'' ''2''] empty_world) = Inr [JObj []]
   \<and> fst (bulkDeleteItems always_html ''tok'' ''b1'' [''1''] empty_world) = Inr ()
   \<and> (\<exists>vs. fst (bulkCreateItems always_html ''tok'' ''b1'' [sticky ''A''] empty_world) = Inr vs
          \<and> set vs \<subseteq> {JObj []})"
proof -
  have nj: "not_json html_page"
    unfolding not_json_def html_page_def by code_simp
  have a: "\<forall>cs q. \<exists>r. always_html cs q = Inr r \<and> ok r \<and> not_json r"
    using nj by (simp add: always_html_def) (simp add: html_page_def ok_def)
  have b: "always_html [] (build_request ''tok'' ''/boards/b1'' no_options) = Inr html_page
           \<and> ok html_page \<and> not_json html_page"
    using nj by (simp add: always_html_def) (simp add: html_page_def ok_def)
  show ?thesis
    using a b
      non_json_success_is_empty [where srv = always_html and cs = "[]" and token = "''tok''"
        and path = "''/boards/b1''" and opts = no_options and r = html_page
        and srv' = always_html and cs' = "[]" and boardId = "''b1''" and itemId = "''i1''"
        and payload = new_content and query' = None and teamId = None
        and updates = "[change ''1'', change ''2'']" and connectors = "[link ''1'' ''2'']"
        and itemIds = "[''1'']" and items = "[sticky ''A'']" and w = empty_world]
    by (simp add: numeral_2_eq_2)
qed


section \<open>Generic update routing\<close>

text \<open>
  C5. \<^verbatim>\<open>updateItem\<close> always issues the read of the item first (a \<^verbatim>\<open>GET\<close> of the generic item
  path). When the read returns an item whose \<^verbatim>\<open>type\<close> can be read, the update is one \<^verbatim>\<open>PATCH\<close>
  with the given payload, issued next, to the endpoint of that type for \<^verbatim>\<open>sticky_note\<close>,
  \<^verbatim>\<open>shape\<close>, \<^verbatim>\<open>text\<close>, \<^verbatim>\<open>card\<close>, \<^verbatim>\<open>connector\<close>, \<^verbatim>\<open>frame\<close>, \<^verbatim>\<open>image\<close>, \<^verbatim>\<open>document\<close> and \<^verbatim>\<open>embed\<close>,
  and to the generic item endpoint for any other value; the result is the result of that
  request. For a shape the path is the shape path, which differs from the generic one.
\<close>

theorem updateItem_reads_then_routes:
  "(\<exists>rest. snd (updateItem srv token boardId itemId payload cs)
        = cs @ build_request token (''/boards/'' @ boardId @ ''/items/'' @ itemId) no_options # rest)
   \<and> (getItem srv' token boardId itemId cs' = (Inr item, cs'') \<and> get_prop item ''type'' = Inr t \<longrightarrow>
        cs'' = cs' @ [build_request token (''/boards/'' @ boardId @ ''/items/'' @ itemId) no_options]
        \<and> (\<exists>path.
             updateItem srv' token boardId itemId payload cs'
               = fetchApi srv' token path (method_body ''PATCH'' payload) cs''
           \<and> snd (updateItem srv' token boardId itemId payload cs')
               = cs'' @ [build_request token path (method_body ''PATCH'' payload)]
           \<and> (t = JStr ''sticky_note'' \<longrightarrow> path = ''/boards/'' @ boardId @ ''/sticky_notes/'' @ itemId)
           \<and> (t = JStr ''shape'' \<longrightarrow> path = ''/boards/'' @ boardId @ ''/shapes/'' @ itemId)
           \<and> (t = JStr ''text'' \<longrightarrow> path = ''/boards/'' @ boardId @ ''/texts/'' @ itemId)
           \<and> (t = JStr ''card'' \<longrightarrow> path = ''/boards/'' @ boardId @ ''/cards/'' @ itemId)
           \<and> (t = JStr ''connector'' \<longrightarrow> path = ''/boards/'' @ boardId @ ''/connectors/'' @ itemId)
           \<and> (t = JStr ''frame'' \<longrightarrow> path = ''/boards/'' @ boardId @ ''/frames/'' @ itemId)
           \<and> (t = JStr ''image'' \<longrightarrow> path = ''/boards/'' @ boardId @ ''/images/'' @ itemId)
           \<and> (t = JStr ''document'' \<longrightarrow> path = ''/boards/'' @ boardId @ ''/documents/'' @ itemId)
           \<and> (t = JStr ''embed'' \<longrightarrow> path = ''/boards/'' @ boardId @ ''/embeds/'' @ itemId)
           \<and> (t \<notin> JStr ` {''sticky_note'', ''shape'', ''text'', ''card'', ''connector'', ''frame'', ''image'', ''document'', ''embed''}
                \<longrightarrow> path = ''/boards/'' @ boardId @ ''/items/'' @ itemId)
           \<and> (t = JStr ''shape'' \<longrightarrow> path \<noteq> ''/boards/'' @ boardId @ ''/items/'' @ itemId)))
   \<and> method (build_request token p no_options) = ''GET''
   \<and> method (build_request token p (method_body ''PATCH'' payload)) = ''PATCH''
   \<and> url (build_request token p opts) = ''https://api.miro.com/v2'' @ p"
proof (intro conjI impI)
  let ?read = "build_request token (''/boards/'' @ boardId @ ''/items/'' @ itemId) no_options"
  show "\<exists>rest. snd (updateItem srv token boardId itemId payload cs) = cs @ ?read # rest"
  proof (cases "fetchApi srv token (''/boards/'' @ boardId @ ''/items/'' @ itemId) no_options cs")
    case (Pair res cs1)
    then have cs1: "cs1 = cs @ [?read]"
      using fetchApi_log [of srv token "''/boards/'' @ boardId @ ''/items/'' @ itemId" no_options cs]
      by simp
    show ?thesis
    proof (cases res)
      case (Inl e)
      then show ?thesis
        using Pair cs1 by (simp add: updateItem_def getItem_def await_def)
    next
      case (Inr it)
      show ?thesis
      proof (cases "get_prop it ''type''")
        case (Inl e)
        then show ?thesis
          using Pair cs1 \<open>res = Inr it\<close> by (simp add: updateItem_def getItem_def await_def sync_def)
      next
        case (Inr ty)
        have "snd (updateItem srv token boardId itemId payload cs)
                = snd (fetchApi srv token (updateItem_endpoint boardId itemId ty) (method_body ''PATCH'' payload) cs1)"
          using Pair \<open>res = Inr it\<close> Inr by (simp add: updateItem_def getItem_def await_def sync_def)
        then show ?thesis
          using cs1 by (simp add: fetchApi_log)
      qed
    qed
  qed
next
  assume a: "getItem srv' token boardId itemId cs' = (Inr item, cs'') \<and> get_prop item ''type'' = Inr t"
  then show cs'': "cs'' = cs' @ [build_request token (''/boards/'' @ boardId @ ''/items/'' @ itemId) no_options]"
    using fetchApi_log [of srv' token "''/boards/'' @ boardId @ ''/items/'' @ itemId" no_options cs']
    by (simp add: getItem_def)
  have u: "updateItem srv' token boardId itemId payload cs'
             = fetchApi srv' token (updateItem_endpoint boardId itemId t) (method_body ''PATCH'' payload) cs''"
    using a by (simp add: updateItem_def await_def sync_def)
  show "\<exists>path.
             updateItem srv' token boardId itemId payload cs'
               = fetchApi srv' token path (method_body ''PATCH'' payload) cs''
           \<and> snd (updateItem srv' token boardId itemId payload cs')
               = cs'' @ [build_request token path (method_body ''PATCH'' payload)]
           \<and> (t = JStr ''sticky_note'' \<longrightarrow> path = ''/boards/'' @ boardId @ ''/sticky_notes/'' @ itemId)
           \<and> (t = JStr ''shape'' \<longrightarrow> path = ''/boards/'' @ boardId @ ''/shapes/'' @ itemId)
           \<and> (t = JStr ''text'' \<longrightarrow> path = ''/boards/'' @ boardId @ ''/texts/'' @ itemId)
           \<and> (t = JStr ''card'' \<longrightarrow> path = ''/boards/'' @ boardId @ ''/cards/'' @ itemId)
           \<and> (t = JStr ''connector'' \<longrightarrow> path = ''/boards/'' @ boardId @ ''/connectors/'' @ itemId)
           \<and> (t = JStr ''frame'' \<longrightarrow> path = ''/boards/'' @ boardId @ ''/frames/'' @ itemId)
           \<and> (t = JStr ''image'' \<longrightarrow> path = ''/boards/'' @ boardId @ ''/images/'' @ itemId)
           \<and> (t = JStr ''document'' \<longrightarrow> path = ''/boards/'' @ boardId @ ''/documents/'' @ itemId)
           \<and> (t = JStr ''embed'' \<longrightarrow> path = ''/boards/'' @ boardId @ ''/embeds/'' @ itemId)
           \<and> (t \<notin> JStr ` {''sticky_note'', ''shape'', ''text'', ''card'', ''connector'', ''frame'', ''image'', ''document'', ''embed''}
                \<longrightarrow> path = ''/boards/'' @ boardId @ ''/items/'' @ itemId)
           \<and> (t = JStr ''shape'' \<longrightarrow> path \<noteq> ''/boards/'' @ boardId @ ''/items/'' @ itemId)"
    by (rule exI [of _ "updateItem_endpoint boardId itemId t"])
      (auto simp: u fetchApi_log updateItem_endpoint_def)
qed (simp_all add: build_request_def method_or_GET_def no_options_def method_body_def)

theorem updateItem_reads_then_routes_witness:
  "snd (updateItem shape_board ''tok'' ''b1'' ''i1'' new_content [])
     = [build_request ''tok'' ''/boards/b1/items/i1'' no_options,
        build_request ''tok'' ''/boards/b1/shapes/i1'' (method_body ''PATCH'' new_content)]
   \<and> snd (updateItem echo_remote ''tok'' ''b1'' ''i1'' new_content [])
     = [build_request ''tok'' ''/boards/b1/items/i1'' no_options,
        build_request ''tok'' ''/boards/b1/items/i1'' (method_body ''PATCH'' new_content)]"
proof -
  have a: "getItem shape_board ''tok'' ''b1'' ''i1'' []
             = (Inr (JObj [(''id'', JStr ''i1''), (''type'', JStr ''shape'')]),
                [build_request ''tok'' ''/boards/b1/items/i1'' no_options])
           \<and> get_prop (JObj [(''id'', JStr ''i1''), (''type'', JStr ''shape'')]) ''type'' = Inr (JStr ''shape'')"
    by code_simp
  have b: "getItem echo_remote ''tok'' ''b1'' ''i1'' []
             = (Inr (JObj []), [build_request ''tok'' ''/boards/b1/items/i1'' no_options])
           \<and> get_prop (JObj []) ''type'' = Inr JUndefined"
    by code_simp
  have c: "JUndefined \<notin> JStr ` S" for S
    by auto
  show ?thesis
    using a b c
      updateItem_reads_then_routes [where srv = shape_board and srv' = shape_board and token = "''tok''"
        and boardId = "''b1''" and itemId = "''i1''" and payload = new_content and cs = "[]" and cs' = "[]"
        and item = "JObj [(''id'', JStr ''i1''), (''type'', JStr ''shape'')]"
        and cs'' = "[build_request ''tok'' ''/boards/b1/items/i1'' no_options]" and t = "JStr ''shape''"
        and p = "[]" and opts = no_options]
      updateItem_reads_then_routes [where srv = echo_remote and srv' = echo_remote and token = "''tok''"
        and boardId = "''b1''" and itemId = "''i1''" and payload = new_content and cs = "[]" and cs' = "[]"
        and item = "JObj []"
        and cs'' = "[build_request ''tok'' ''/boards/b1/items/i1'' no_options]" and t = JUndefined
        and p = "[]" and opts = no_options]
    by auto
qed

section \<open>Credential resolution\<close>

text \<open>
  C8. A value is present when it is a non-empty string: this is the entry point's own test,
  both where it reports whether the environment variable exists and where it decides the
  fatal exit. Whenever a command-line token value is present, the resolved credential equals
  it, whatever the environment variable holds (so also when both are present), and the client
  is built with it; a command-line value that is not present leaves the choice to the
  environment variable. When neither is present, startup ends with exit code 1, before the
  client is built and with no request issued.
\<close>

theorem credential_precedence:
  "(t \<noteq> [] \<longrightarrow> oauthToken (Some t) env = Some t \<and> main_startup (Some t) env cs = (Client t, cs))
   \<and> oauthToken (Some []) env = env
   \<and> oauthToken None env = env
   \<and> ((argv = None \<or> argv = Some []) \<and> (env' = None \<or> env' = Some []) \<longrightarrow>
        main_startup argv env' cs = (Exit 1, cs))"
  by (auto simp: oauthToken_def main_startup_def)

theorem credential_precedence_witness:
  "oauthToken (Some ''flag-token'') (Some ''env-token'') = Some ''flag-token''
   \<and> main_startup (Some ''flag-token'') (Some ''env-token'') [] = (Client ''flag-token'', [])
   \<and> main_startup None None [] = (Exit 1, [])"
  using credential_precedence [where t = "''flag-token''" and env = "Some ''env-token''" and cs = "[]"
      and argv = None and env' = None]
  by simp

end
